theory Spec2Isabelle
  imports Complex_Main
begin

section \<open>Values, evaluator and rounding\<close>

text \<open>
  The solvers of \<^verbatim>\<open>app.py\<close> (the web form) and \<^verbatim>\<open>ZOF_CLI.py\<close> (the text prompt) compute
  with Python floats. The embedding computes with the reals: every comparison and update
  rule is the source's, but rounding error, overflow, infinities and NaN of binary floating
  point are not modelled. The one exception is the sign test of a product (\<open>product_negative\<close>
  below), where the underflow of the float product decides which branch is taken.

  Python's builtin \<^verbatim>\<open>eval\<close> is not code of the repository. It is a parameter \<open>pe\<close> of every
  definition: \<open>pe text x\<close> is the number that
  \<^verbatim>\<open>eval(text, {"__builtins__": {}}, allowed_locals)\<close> yields with \<^verbatim>\<open>allowed_locals['x'] = x\<close>,
  and \<open>None\<close> when \<^verbatim>\<open>eval\<close> raises an \<^verbatim>\<open>Exception\<close> (which both \<^verbatim>\<open>safe_eval\<close> functions
  turn into \<^verbatim>\<open>None\<close>) or yields \<^verbatim>\<open>None\<close> itself. Results of \<^verbatim>\<open>eval\<close> that are not numbers
  (strings, lists, complex numbers) are outside the embedding.
\<close>

type_synonym py_eval = "string \<Rightarrow> real \<Rightarrow> real option"

text \<open>\<^verbatim>\<open>func_str.replace('^', '**')\<close>\<close>

definition replace_caret :: "string \<Rightarrow> string" where
  "replace_caret func_str = concat (map (\<lambda>ch. if ch = CHR ''^'' then ''**'' else [ch]) func_str)"

text \<open>\<^verbatim>\<open>safe_eval\<close> of \<^verbatim>\<open>app.py\<close>.\<close>

definition safe_eval :: "py_eval \<Rightarrow> string \<Rightarrow> real \<Rightarrow> real option" where
  "safe_eval pe func_str x = pe (replace_caret func_str) x"

text \<open>\<^verbatim>\<open>safe_eval\<close> and \<^verbatim>\<open>derive_eval\<close> of \<^verbatim>\<open>ZOF_CLI.py\<close>: the text goes to \<^verbatim>\<open>eval\<close> as it is.\<close>

definition cli_safe_eval :: "py_eval \<Rightarrow> string \<Rightarrow> real \<Rightarrow> real option" where
  "cli_safe_eval pe func_str x = pe func_str x"

definition derive_eval :: "py_eval \<Rightarrow> string \<Rightarrow> real \<Rightarrow> real option" where
  "derive_eval pe deriv_str x = cli_safe_eval pe deriv_str x"

text \<open>
  Python's \<^verbatim>\<open>round(v, 8)\<close>: the nearest multiple of \<open>10\<^sup>-\<^sup>8\<close>, a tie going to the even
  multiple.
\<close>

definition round_half_even :: "real \<Rightarrow> int" where
  "round_half_even r =
     (let fl = \<lfloor>r\<rfloor>; d = r - of_int fl
      in if d < 1 / 2 then fl
         else if 1 / 2 < d then fl + 1
         else if even fl then fl else fl + 1)"

definition round8 :: "real \<Rightarrow> real" where
  "round8 v = of_int (round_half_even (v * 100000000)) / 100000000"

text \<open>
  The float test \<^verbatim>\<open>u * v < 0\<close> of the two bracketing methods. The product of two doubles is
  rounded to the nearest double, which keeps its sign, except that a product of magnitude at
  most \<^verbatim>\<open>2**-1075\<close> (half the smallest positive double) underflows to a zero, and
  \<^verbatim>\<open>-0.0 < 0\<close> is false. The test \<^verbatim>\<open>u * v >= 0\<close> is the negation.
\<close>

definition product_negative :: "real \<Rightarrow> real \<Rightarrow> bool" where
  "product_negative u v \<longleftrightarrow> u * v < - (1 / 2 ^ 1075)"

section \<open>The web solvers (\<^verbatim>\<open>app.py\<close>)\<close>

text \<open>One entry of the list \<^verbatim>\<open>data\<close>: the dict \<^verbatim>\<open>{"iter", "root", "func", "error"}\<close>.\<close>

record iteration_record =
  rec_iter :: int
  rec_root :: real
  rec_func :: real
  rec_error :: real

datatype exn = TypeError | ZeroDivisionError

text \<open>
  What a solver gives its caller: the dict \<^verbatim>\<open>{"error": msg}\<close>, the dict
  \<^verbatim>\<open>{"data": data, "root": root, "converged": root is not None}\<close>, or an exception that
  leaves the solver.
\<close>

datatype result =
    Error_dict string
  | Data_dict "iteration_record list" "real option" bool
  | Raised exn

text \<open>\<^verbatim>\<open>result.get("error")\<close> and \<^verbatim>\<open>result.get("data")\<close> of a returned dict.\<close>

fun get_error :: "result \<Rightarrow> string option" where
  "get_error (Error_dict msg) = Some msg"
| "get_error _ = None"

fun get_data :: "result \<Rightarrow> iteration_record list option" where
  "get_data (Data_dict data rt converged) = Some data"
| "get_data _ = None"

text \<open>
  How one pass of a loop body ends: it falls through to the next pass with the updated
  locals, it sets \<^verbatim>\<open>root\<close> and executes \<^verbatim>\<open>break\<close>, it returns an error dict, or it raises.
\<close>

datatype 'st ctrl = Continue 'st | Break real | Return string | Raise exn

text \<open>
  \<^verbatim>\<open>for i in range(1, max_iter + 1): body\<close> followed by
  \<^verbatim>\<open>return {"data": data, "root": root, "converged": root is not None}\<close>, the shape shared by
  the six solvers. The first argument counts the passes that remain; \<open>i\<close> is the loop
  variable, \<open>st\<close> the solver's numeric locals and \<open>data\<close> the list built so far. \<^verbatim>\<open>root\<close> is
  \<^verbatim>\<open>None\<close> unless the body has set it just before \<^verbatim>\<open>break\<close>.
\<close>

fun for_range ::
  "(int \<Rightarrow> 'st \<Rightarrow> iteration_record list \<Rightarrow> iteration_record list \<times> 'st ctrl) \<Rightarrow>
   nat \<Rightarrow> int \<Rightarrow> 'st \<Rightarrow> iteration_record list \<Rightarrow> result" where
  "for_range body 0 i st data = Data_dict data None False"
| "for_range body (Suc n) i st data =
     (case body i st data of
        (data', Continue st') \<Rightarrow> for_range body n (i + 1) st' data'
      | (data', Break rt) \<Rightarrow> Data_dict data' (Some rt) True
      | (data', Return msg) \<Rightarrow> Error_dict msg
      | (data', Raise e) \<Rightarrow> Raised e)"

text \<open>
  The dict appended to \<^verbatim>\<open>data\<close>. \<^verbatim>\<open>round(fc, 8)\<close> raises \<^verbatim>\<open>TypeError\<close> when \<^verbatim>\<open>fc\<close> is \<^verbatim>\<open>None\<close>,
  before anything is appended; the solvers test for that case themselves.
\<close>

definition mk_record :: "int \<Rightarrow> real \<Rightarrow> real \<Rightarrow> real \<Rightarrow> iteration_record" where
  "mk_record i c fc err =
     \<lparr>rec_iter = i, rec_root = round8 c, rec_func = round8 fc, rec_error = round8 err\<rparr>"

subsection \<open>Bisection\<close>

definition bisection_body ::
  "py_eval \<Rightarrow> string \<Rightarrow> real \<Rightarrow> int \<Rightarrow> real \<times> real \<times> real \<Rightarrow> iteration_record list \<Rightarrow>
   iteration_record list \<times> (real \<times> real \<times> real) ctrl" where
  "bisection_body pe func_str tol i st data =
     (case st of (a, b, fa) \<Rightarrow>
        (let c = (a + b) / 2;
             fc = safe_eval pe func_str c;
             err = \<bar>b - a\<bar>
         in (case fc of
               None \<Rightarrow> (data, Raise TypeError)
             | Some fc \<Rightarrow>
                 (let data = data @ [mk_record i c fc err]
                  in if \<bar>fc\<bar> < tol \<or> err < tol then (data, Break c)
                     else if product_negative fa fc then (data, Continue (a, c, fa))
                     else (data, Continue (c, b, fc))))))"

definition solve_bisection ::
  "py_eval \<Rightarrow> string \<Rightarrow> real \<Rightarrow> real \<Rightarrow> real \<Rightarrow> int \<Rightarrow> result" where
  "solve_bisection pe func_str a b tol max_iter =
     (case (safe_eval pe func_str a, safe_eval pe func_str b) of
        (Some fa, Some fb) \<Rightarrow>
          if \<not> product_negative fa fb
          then Error_dict ''Bisection fails: f(a) and f(b) must have opposite signs.''
          else for_range (bisection_body pe func_str tol) (nat max_iter) 1 (a, b, fa) []
      | _ \<Rightarrow> Error_dict ''Invalid function or value.'')"

subsection \<open>Regula falsi\<close>

text \<open>
  The locals are \<open>(a, b, fa, fb, prev_c)\<close>. There is no test for \<^verbatim>\<open>None\<close> before
  \<^verbatim>\<open>fa * fb\<close>: the product raises \<^verbatim>\<open>TypeError\<close> when an endpoint cannot be evaluated. The
  float division raises \<^verbatim>\<open>ZeroDivisionError\<close> on a zero denominator.
\<close>

definition regula_falsi_body ::
  "py_eval \<Rightarrow> string \<Rightarrow> real \<Rightarrow> int \<Rightarrow> real \<times> real \<times> real \<times> real \<times> real \<Rightarrow>
   iteration_record list \<Rightarrow>
   iteration_record list \<times> (real \<times> real \<times> real \<times> real \<times> real) ctrl" where
  "regula_falsi_body pe func_str tol i st data =
     (case st of (a, b, fa, fb, prev_c) \<Rightarrow>
        if fb - fa = 0 then (data, Raise ZeroDivisionError)
        else
          (let c = (a * fb - b * fa) / (fb - fa);
               fc = safe_eval pe func_str c;
               err = \<bar>c - prev_c\<bar>
           in (case fc of
                 None \<Rightarrow> (data, Raise TypeError)
               | Some fc \<Rightarrow>
                   (let data = data @ [mk_record i c fc err]
                    in if \<bar>fc\<bar> < tol \<or> err < tol then (data, Break c)
                       else if product_negative fa fc then (data, Continue (a, c, fa, fc, c))
                       else (data, Continue (c, b, fc, fb, c))))))"

definition solve_regula_falsi ::
  "py_eval \<Rightarrow> string \<Rightarrow> real \<Rightarrow> real \<Rightarrow> real \<Rightarrow> int \<Rightarrow> result" where
  "solve_regula_falsi pe func_str a b tol max_iter =
     (case (safe_eval pe func_str a, safe_eval pe func_str b) of
        (Some fa, Some fb) \<Rightarrow>
          if \<not> product_negative fa fb
          then Error_dict ''Regula Falsi fails: f(a) and f(b) must have opposite signs.''
          else for_range (regula_falsi_body pe func_str tol) (nat max_iter) 1 (a, b, fa, fb, a) []
      | _ \<Rightarrow> Raised TypeError)"

subsection \<open>Secant\<close>

definition secant_body ::
  "py_eval \<Rightarrow> string \<Rightarrow> real \<Rightarrow> int \<Rightarrow> real \<times> real \<Rightarrow> iteration_record list \<Rightarrow>
   iteration_record list \<times> (real \<times> real) ctrl" where
  "secant_body pe func_str tol i st data =
     (case st of (x0, x1) \<Rightarrow>
        (case (safe_eval pe func_str x0, safe_eval pe func_str x1) of
           (Some f0, Some f1) \<Rightarrow>
             if f1 - f0 = 0 then (data, Return ''Division by zero (f1 - f0 = 0)'')
             else
               (let x2 = x1 - (f1 * (x1 - x0)) / (f1 - f0);
                    f2 = safe_eval pe func_str x2;
                    err = \<bar>x2 - x1\<bar>
                in (case f2 of
                      None \<Rightarrow> (data, Raise TypeError)
                    | Some f2 \<Rightarrow>
                        (let data = data @ [mk_record i x2 f2 err]
                         in if \<bar>f2\<bar> < tol \<or> err < tol then (data, Break x2)
                            else (data, Continue (x1, x2)))))
         | _ \<Rightarrow> (data, Return ''Eval error'')))"

definition solve_secant ::
  "py_eval \<Rightarrow> string \<Rightarrow> real \<Rightarrow> real \<Rightarrow> real \<Rightarrow> int \<Rightarrow> result" where
  "solve_secant pe func_str x0 x1 tol max_iter =
     for_range (secant_body pe func_str tol) (nat max_iter) 1 (x0, x1) []"

subsection \<open>Newton-Raphson\<close>

text \<open>
  \<^verbatim>\<open>f_prime0 == 0\<close> is tested first; \<^verbatim>\<open>None == 0\<close> is false in Python, so a derivative that
  could not be evaluated reaches the second test.
\<close>

definition newton_body ::
  "py_eval \<Rightarrow> string \<Rightarrow> string \<Rightarrow> real \<Rightarrow> int \<Rightarrow> real \<Rightarrow> iteration_record list \<Rightarrow>
   iteration_record list \<times> real ctrl" where
  "newton_body pe func_str deriv_str tol i x0 data =
     (let f0 = safe_eval pe func_str x0;
          f_prime0 = safe_eval pe deriv_str x0
      in if f_prime0 = Some 0 then (data, Return ''Derivative is zero. Method fails.'')
         else
           (case (f0, f_prime0) of
              (Some f0, Some f_prime0) \<Rightarrow>
                (let x1 = x0 - (f0 / f_prime0);
                     f1 = safe_eval pe func_str x1;
                     err = \<bar>x1 - x0\<bar>
                 in (case f1 of
                       None \<Rightarrow> (data, Raise TypeError)
                     | Some f1 \<Rightarrow>
                         (let data = data @ [mk_record i x1 f1 err]
                          in if \<bar>f1\<bar> < tol \<or> err < tol then (data, Break x1)
                             else (data, Continue x1))))
            | _ \<Rightarrow> (data, Return ''Eval error'')))"

definition solve_newton ::
  "py_eval \<Rightarrow> string \<Rightarrow> string \<Rightarrow> real \<Rightarrow> real \<Rightarrow> int \<Rightarrow> result" where
  "solve_newton pe func_str deriv_str x0 tol max_iter =
     for_range (newton_body pe func_str deriv_str tol) (nat max_iter) 1 x0 []"

subsection \<open>Fixed-point iteration\<close>

text \<open>The divergence test follows the assignment \<^verbatim>\<open>x0 = x1\<close>: it reads \<^verbatim>\<open>x0 > 1e10\<close>.\<close>

definition fixed_point_body ::
  "py_eval \<Rightarrow> string \<Rightarrow> real \<Rightarrow> int \<Rightarrow> real \<Rightarrow> iteration_record list \<Rightarrow>
   iteration_record list \<times> real ctrl" where
  "fixed_point_body pe g_str tol i x0 data =
     (case safe_eval pe g_str x0 of
        None \<Rightarrow> (data, Return ''Eval error'')
      | Some x1 \<Rightarrow>
          (let err = \<bar>x1 - x0\<bar>;
               data = data @ [mk_record i x1 x1 err]
           in if err < tol then (data, Break x1)
              else if x1 > 10000000000 then (data, Return ''Divergence detected.'')
              else (data, Continue x1)))"

definition solve_fixed_point ::
  "py_eval \<Rightarrow> string \<Rightarrow> real \<Rightarrow> real \<Rightarrow> int \<Rightarrow> result" where
  "solve_fixed_point pe g_str x0 tol max_iter =
     for_range (fixed_point_body pe g_str tol) (nat max_iter) 1 x0 []"

subsection \<open>Modified secant\<close>

text \<open>\<^verbatim>\<open>f0_delta - f0\<close> raises \<^verbatim>\<open>TypeError\<close> when either value is \<^verbatim>\<open>None\<close>.\<close>

definition mod_secant_body ::
  "py_eval \<Rightarrow> string \<Rightarrow> real \<Rightarrow> real \<Rightarrow> int \<Rightarrow> real \<Rightarrow> iteration_record list \<Rightarrow>
   iteration_record list \<times> real ctrl" where
  "mod_secant_body pe func_str delta tol i x0 data =
     (case (safe_eval pe func_str x0, safe_eval pe func_str (x0 + delta * x0)) of
        (Some f0, Some f0_delta) \<Rightarrow>
          (let denom = f0_delta - f0
           in if denom = 0 then (data, Return ''Division by zero'')
              else
                (let x1 = x0 - (delta * x0 * f0) / denom;
                     f1 = safe_eval pe func_str x1;
                     err = \<bar>x1 - x0\<bar>
                 in (case f1 of
                       None \<Rightarrow> (data, Raise TypeError)
                     | Some f1 \<Rightarrow>
                         (let data = data @ [mk_record i x1 f1 err]
                          in if \<bar>f1\<bar> < tol \<or> err < tol then (data, Break x1)
                             else (data, Continue x1)))))
      | _ \<Rightarrow> (data, Raise TypeError))"

definition solve_mod_secant ::
  "py_eval \<Rightarrow> string \<Rightarrow> real \<Rightarrow> real \<Rightarrow> real \<Rightarrow> int \<Rightarrow> result" where
  "solve_mod_secant pe func_str x0 delta tol max_iter =
     for_range (mod_secant_body pe func_str delta tol) (nat max_iter) 1 x0 []"

section \<open>The text-prompt solvers (\<^verbatim>\<open>ZOF_CLI.py\<close>)\<close>

text \<open>
  These functions return nothing; what they do is print. The state is the list of what
  has been printed, one entry per call of \<^verbatim>\<open>print\<close>, \<^verbatim>\<open>print_header\<close> or \<^verbatim>\<open>print_row\<close>. A row
  keeps the four arguments of \<^verbatim>\<open>print_row\<close> as numbers (the \<^verbatim>\<open>.8f\<close> formatting belongs to
  the display); \<^verbatim>\<open>print_row\<close> raises \<^verbatim>\<open>TypeError\<close> when the function value is \<^verbatim>\<open>None\<close>, and then
  prints nothing. Leading newlines of the messages are left out.
\<close>

datatype out =
    Header string
  | Line string
  | Table_head string string
  | Rule
  | Row int real real real
  | Converged_line real int
  | Solving_line string
  | Delta_line real

datatype 'st cli_ctrl = Cli_continue 'st | Cli_return | Cli_raise exn

text \<open>
  \<^verbatim>\<open>for i in range(1, max_iter + 1): body\<close> followed by
  \<^verbatim>\<open>print("\nMax iterations reached.")\<close>. The result is the output and the exception that
  left the function, if any.
\<close>

fun cli_for_range ::
  "(int \<Rightarrow> 'st \<Rightarrow> out list \<Rightarrow> out list \<times> 'st cli_ctrl) \<Rightarrow>
   nat \<Rightarrow> int \<Rightarrow> 'st \<Rightarrow> out list \<Rightarrow> out list \<times> exn option" where
  "cli_for_range body 0 i st outp = (outp @ [Line ''Max iterations reached.''], None)"
| "cli_for_range body (Suc n) i st outp =
     (case body i st outp of
        (outp', Cli_continue st') \<Rightarrow> cli_for_range body n (i + 1) st' outp'
      | (outp', Cli_return) \<Rightarrow> (outp', None)
      | (outp', Cli_raise e) \<Rightarrow> (outp', Some e))"

subsection \<open>Bisection\<close>

definition cli_bisection_body ::
  "py_eval \<Rightarrow> string \<Rightarrow> real \<Rightarrow> int \<Rightarrow> real \<times> real \<times> real \<Rightarrow> out list \<Rightarrow>
   out list \<times> (real \<times> real \<times> real) cli_ctrl" where
  "cli_bisection_body pe func_str tol i st outp =
     (case st of (a, b, fa) \<Rightarrow>
        (let c = (a + b) / 2;
             fc = cli_safe_eval pe func_str c;
             err = \<bar>b - a\<bar>
         in (case fc of
               None \<Rightarrow> (outp, Cli_raise TypeError)
             | Some fc \<Rightarrow>
                 (let outp = outp @ [Row i c fc err]
                  in if \<bar>fc\<bar> < tol \<or> err < tol
                     then (outp @ [Converged_line c i], Cli_return)
                     else if product_negative fa fc then (outp, Cli_continue (a, c, fa))
                     else (outp, Cli_continue (c, b, fc))))))"

definition bisection ::
  "py_eval \<Rightarrow> string \<Rightarrow> real \<Rightarrow> real \<Rightarrow> real \<Rightarrow> int \<Rightarrow> out list \<times> exn option" where
  "bisection pe func_str a b tol max_iter =
     (let outp = [Header ''Bisection'']
      in (case (cli_safe_eval pe func_str a, cli_safe_eval pe func_str b) of
            (Some fa, Some fb) \<Rightarrow>
              if \<not> product_negative fa fb
              then (outp @ [Line ''Error: f(a) and f(b) must have opposite signs.''], None)
              else cli_for_range (cli_bisection_body pe func_str tol) (nat max_iter) 1 (a, b, fa)
                     (outp @ [Table_head ''Root Est (c)'' ''f(c)'', Rule])
          | _ \<Rightarrow> (outp @ [Line ''Error: Could not evaluate function.''], None)))"

subsection \<open>Regula falsi\<close>

definition cli_regula_falsi_body ::
  "py_eval \<Rightarrow> string \<Rightarrow> real \<Rightarrow> int \<Rightarrow> real \<times> real \<times> real \<times> real \<times> real \<Rightarrow> out list \<Rightarrow>
   out list \<times> (real \<times> real \<times> real \<times> real \<times> real) cli_ctrl" where
  "cli_regula_falsi_body pe func_str tol i st outp =
     (case st of (a, b, fa, fb, prev_c) \<Rightarrow>
        if fb - fa = 0 then (outp, Cli_raise ZeroDivisionError)
        else
          (let curr_c = (a * fb - b * fa) / (fb - fa);
               fc = cli_safe_eval pe func_str curr_c;
               err = \<bar>curr_c - prev_c\<bar>
           in (case fc of
                 None \<Rightarrow> (outp, Cli_raise TypeError)
               | Some fc \<Rightarrow>
                   (let outp = outp @ [Row i curr_c fc err]
                    in if \<bar>fc\<bar> < tol \<or> err < tol
                       then (outp @ [Converged_line curr_c i], Cli_return)
                       else if product_negative fa fc
                       then (outp, Cli_continue (a, curr_c, fa, fc, curr_c))
                       else (outp, Cli_continue (curr_c, b, fc, fb, curr_c))))))"

definition regula_falsi ::
  "py_eval \<Rightarrow> string \<Rightarrow> real \<Rightarrow> real \<Rightarrow> real \<Rightarrow> int \<Rightarrow> out list \<times> exn option" where
  "regula_falsi pe func_str a b tol max_iter =
     (let outp = [Header ''Regula Falsi (False Position)'']
      in (case (cli_safe_eval pe func_str a, cli_safe_eval pe func_str b) of
            (Some fa, Some fb) \<Rightarrow>
              if \<not> product_negative fa fb
              then (outp @ [Line ''Error: f(a) and f(b) must have opposite signs.''], None)
              else cli_for_range (cli_regula_falsi_body pe func_str tol) (nat max_iter) 1
                     (a, b, fa, fb, a) (outp @ [Table_head ''Root Est (c)'' ''f(c)'', Rule])
          | _ \<Rightarrow> (outp, Some TypeError)))"

subsection \<open>Secant\<close>

text \<open>No test for \<^verbatim>\<open>None\<close> here: \<^verbatim>\<open>f1 - f0\<close> raises \<^verbatim>\<open>TypeError\<close>.\<close>

definition cli_secant_body ::
  "py_eval \<Rightarrow> string \<Rightarrow> real \<Rightarrow> int \<Rightarrow> real \<times> real \<Rightarrow> out list \<Rightarrow>
   out list \<times> (real \<times> real) cli_ctrl" where
  "cli_secant_body pe func_str tol i st outp =
     (case st of (x0, x1) \<Rightarrow>
        (case (cli_safe_eval pe func_str x0, cli_safe_eval pe func_str x1) of
           (Some f0, Some f1) \<Rightarrow>
             if f1 - f0 = 0
             then (outp @ [Line ''Error: Division by zero (f(x1) - f(x0) = 0).''], Cli_return)
             else
               (let x2 = x1 - (f1 * (x1 - x0)) / (f1 - f0);
                    f2 = cli_safe_eval pe func_str x2;
                    err = \<bar>x2 - x1\<bar>
                in (case f2 of
                      None \<Rightarrow> (outp, Cli_raise TypeError)
                    | Some f2 \<Rightarrow>
                        (let outp = outp @ [Row i x2 f2 err]
                         in if \<bar>f2\<bar> < tol \<or> err < tol
                            then (outp @ [Converged_line x2 i], Cli_return)
                            else (outp, Cli_continue (x1, x2)))))
         | _ \<Rightarrow> (outp, Cli_raise TypeError)))"

definition secant ::
  "py_eval \<Rightarrow> string \<Rightarrow> real \<Rightarrow> real \<Rightarrow> real \<Rightarrow> int \<Rightarrow> out list \<times> exn option" where
  "secant pe func_str x0 x1 tol max_iter =
     cli_for_range (cli_secant_body pe func_str tol) (nat max_iter) 1 (x0, x1)
       [Header ''Secant'', Table_head ''Root Est (x2)'' ''f(x2)'', Rule]"

subsection \<open>Newton-Raphson\<close>

text \<open>After the zero test, \<^verbatim>\<open>f0 / f_prime0\<close> raises \<^verbatim>\<open>TypeError\<close> when either is \<^verbatim>\<open>None\<close>.\<close>

definition cli_newton_body ::
  "py_eval \<Rightarrow> string \<Rightarrow> string \<Rightarrow> real \<Rightarrow> int \<Rightarrow> real \<Rightarrow> out list \<Rightarrow>
   out list \<times> real cli_ctrl" where
  "cli_newton_body pe func_str deriv_str tol i x0 outp =
     (let f0 = cli_safe_eval pe func_str x0;
          f_prime0 = derive_eval pe deriv_str x0
      in if f_prime0 = Some 0
         then (outp @ [Line ''Error: Derivative is zero. Method fails.''], Cli_return)
         else
           (case (f0, f_prime0) of
              (Some f0, Some f_prime0) \<Rightarrow>
                (let x1 = x0 - (f0 / f_prime0);
                     f1 = cli_safe_eval pe func_str x1;
                     err = \<bar>x1 - x0\<bar>
                 in (case f1 of
                       None \<Rightarrow> (outp, Cli_raise TypeError)
                     | Some f1 \<Rightarrow>
                         (let outp = outp @ [Row i x1 f1 err]
                          in if \<bar>f1\<bar> < tol \<or> err < tol
                             then (outp @ [Converged_line x1 i], Cli_return)
                             else (outp, Cli_continue x1))))
            | _ \<Rightarrow> (outp, Cli_raise TypeError)))"

definition newton_raphson ::
  "py_eval \<Rightarrow> string \<Rightarrow> string \<Rightarrow> real \<Rightarrow> real \<Rightarrow> int \<Rightarrow> out list \<times> exn option" where
  "newton_raphson pe func_str deriv_str x0 tol max_iter =
     cli_for_range (cli_newton_body pe func_str deriv_str tol) (nat max_iter) 1 x0
       [Header ''Newton-Raphson'', Table_head ''Root Est (x1)'' ''f(x1)'', Rule]"

subsection \<open>Fixed-point iteration\<close>

text \<open>When \<^verbatim>\<open>g\<close> cannot be evaluated the function returns without a message.\<close>

definition cli_fixed_point_body ::
  "py_eval \<Rightarrow> string \<Rightarrow> real \<Rightarrow> int \<Rightarrow> real \<Rightarrow> out list \<Rightarrow> out list \<times> real cli_ctrl" where
  "cli_fixed_point_body pe g_str tol i x0 outp =
     (case cli_safe_eval pe g_str x0 of
        None \<Rightarrow> (outp, Cli_return)
      | Some x1 \<Rightarrow>
          (let err = \<bar>x1 - x0\<bar>;
               outp = outp @ [Row i x1 x1 err]
           in if err < tol then (outp @ [Converged_line x1 i], Cli_return)
              else if x1 > 10000000000
              then (outp @ [Line ''Values getting too large. Method likely diverging.''],
                    Cli_return)
              else (outp, Cli_continue x1)))"

definition fixed_point ::
  "py_eval \<Rightarrow> string \<Rightarrow> real \<Rightarrow> real \<Rightarrow> int \<Rightarrow> out list \<times> exn option" where
  "fixed_point pe g_str x0 tol max_iter =
     cli_for_range (cli_fixed_point_body pe g_str tol) (nat max_iter) 1 x0
       [Header ''Fixed Point Iteration'', Solving_line g_str,
        Table_head ''Root Est (x1)'' ''g(x1)'', Rule]"

subsection \<open>Modified secant\<close>

definition cli_mod_secant_body ::
  "py_eval \<Rightarrow> string \<Rightarrow> real \<Rightarrow> real \<Rightarrow> int \<Rightarrow> real \<Rightarrow> out list \<Rightarrow>
   out list \<times> real cli_ctrl" where
  "cli_mod_secant_body pe func_str delta tol i x0 outp =
     (case (cli_safe_eval pe func_str x0, cli_safe_eval pe func_str (x0 + delta * x0)) of
        (Some f0, Some f0_delta) \<Rightarrow>
          (let denom = f0_delta - f0
           in if denom = 0
              then (outp @ [Line ''Error: Division by zero in modified secant.''], Cli_return)
              else
                (let x1 = x0 - (delta * x0 * f0) / denom;
                     f1 = cli_safe_eval pe func_str x1;
                     err = \<bar>x1 - x0\<bar>
                 in (case f1 of
                       None \<Rightarrow> (outp, Cli_raise TypeError)
                     | Some f1 \<Rightarrow>
                         (let outp = outp @ [Row i x1 f1 err]
                          in if \<bar>f1\<bar> < tol \<or> err < tol
                             then (outp @ [Converged_line x1 i], Cli_return)
                             else (outp, Cli_continue x1)))))
      | _ \<Rightarrow> (outp, Cli_raise TypeError))"

definition modified_secant ::
  "py_eval \<Rightarrow> string \<Rightarrow> real \<Rightarrow> real \<Rightarrow> real \<Rightarrow> int \<Rightarrow> out list \<times> exn option" where
  "modified_secant pe func_str x0 delta tol max_iter =
     cli_for_range (cli_mod_secant_body pe func_str delta tol) (nat max_iter) 1 x0
       [Header ''Modified Secant'', Delta_line delta,
        Table_head ''Root Est (x1)'' ''f(x1)'', Rule]"

section \<open>Choosing the method\<close>

text \<open>
  The method and its numeric inputs, as the web handler \<^verbatim>\<open>index\<close> reads them from the form
  (\<^verbatim>\<open>method\<close>, \<^verbatim>\<open>param_a\<close>, \<^verbatim>\<open>param_b\<close>, \<^verbatim>\<open>param_x0\<close>, \<^verbatim>\<open>param_x1\<close>, \<^verbatim>\<open>derivative\<close>,
  \<^verbatim>\<open>param_delta\<close>) and as \<^verbatim>\<open>main\<close> reads them from the prompt (choices 1 to 6), after the
  conversion to numbers.
\<close>

datatype zof_method =
    Bisection real real
  | Regula_falsi real real
  | Secant real real
  | Newton string real
  | Fixed_point real
  | Mod_secant real real

text \<open>
  The \<^verbatim>\<open>if method == ...\<close> chain of \<^verbatim>\<open>index\<close>, without the handlers around it (an exception
  that leaves a solver stays an exception here).
\<close>

fun dispatch :: "py_eval \<Rightarrow> string \<Rightarrow> zof_method \<Rightarrow> real \<Rightarrow> int \<Rightarrow> result" where
  "dispatch pe func_str (Bisection a b) tol max_iter =
     solve_bisection pe func_str a b tol max_iter"
| "dispatch pe func_str (Regula_falsi a b) tol max_iter =
     solve_regula_falsi pe func_str a b tol max_iter"
| "dispatch pe func_str (Secant x0 x1) tol max_iter =
     solve_secant pe func_str x0 x1 tol max_iter"
| "dispatch pe func_str (Newton deriv_str x0) tol max_iter =
     solve_newton pe func_str deriv_str x0 tol max_iter"
| "dispatch pe func_str (Fixed_point x0) tol max_iter =
     solve_fixed_point pe func_str x0 tol max_iter"
| "dispatch pe func_str (Mod_secant x0 delta) tol max_iter =
     solve_mod_secant pe func_str x0 delta tol max_iter"

text \<open>The \<^verbatim>\<open>if choice == ...\<close> chain of \<^verbatim>\<open>main\<close>.\<close>

fun cli_dispatch ::
  "py_eval \<Rightarrow> string \<Rightarrow> zof_method \<Rightarrow> real \<Rightarrow> int \<Rightarrow> out list \<times> exn option" where
  "cli_dispatch pe func_input (Bisection a b) tol max_iter =
     bisection pe func_input a b tol max_iter"
| "cli_dispatch pe func_input (Regula_falsi a b) tol max_iter =
     regula_falsi pe func_input a b tol max_iter"
| "cli_dispatch pe func_input (Secant x0 x1) tol max_iter =
     secant pe func_input x0 x1 tol max_iter"
| "cli_dispatch pe func_input (Newton deriv_input x0) tol max_iter =
     newton_raphson pe func_input deriv_input x0 tol max_iter"
| "cli_dispatch pe func_input (Fixed_point x0) tol max_iter =
     fixed_point pe func_input x0 tol max_iter"
| "cli_dispatch pe func_input (Mod_secant x0 delta) tol max_iter =
     modified_secant pe func_input x0 delta tol max_iter"

section \<open>Notions used by the properties\<close>

text \<open>
  A run is exhausted when each of its \<open>n\<close> passes falls through to the next one: no pass
  breaks, returns or raises.
\<close>

fun exhausted ::
  "(int \<Rightarrow> 'st \<Rightarrow> iteration_record list \<Rightarrow> iteration_record list \<times> 'st ctrl) \<Rightarrow>
   nat \<Rightarrow> int \<Rightarrow> 'st \<Rightarrow> iteration_record list \<Rightarrow> bool" where
  "exhausted body 0 i st data = True"
| "exhausted body (Suc n) i st data =
     (case body i st data of
        (data', Continue st') \<Rightarrow> exhausted body n (i + 1) st' data'
      | _ \<Rightarrow> False)"

fun cli_exhausted ::
  "(int \<Rightarrow> 'st \<Rightarrow> out list \<Rightarrow> out list \<times> 'st cli_ctrl) \<Rightarrow>
   nat \<Rightarrow> int \<Rightarrow> 'st \<Rightarrow> out list \<Rightarrow> bool" where
  "cli_exhausted body 0 i st outp = True"
| "cli_exhausted body (Suc n) i st outp =
     (case body i st outp of
        (outp', Cli_continue st') \<Rightarrow> cli_exhausted body n (i + 1) st' outp'
      | _ \<Rightarrow> False)"

text \<open>
  A whole run is exhausted when the loop is entered (for the two bracketing methods: both
  endpoints evaluate and the signs are opposite) and all \<^verbatim>\<open>max_iter\<close> passes fall through.
\<close>

fun run_exhausted :: "py_eval \<Rightarrow> string \<Rightarrow> zof_method \<Rightarrow> real \<Rightarrow> int \<Rightarrow> bool" where
  "run_exhausted pe func_str (Bisection a b) tol max_iter =
     (case (safe_eval pe func_str a, safe_eval pe func_str b) of
        (Some fa, Some fb) \<Rightarrow>
          product_negative fa fb \<and>
          exhausted (bisection_body pe func_str tol) (nat max_iter) 1 (a, b, fa) []
      | _ \<Rightarrow> False)"
| "run_exhausted pe func_str (Regula_falsi a b) tol max_iter =
     (case (safe_eval pe func_str a, safe_eval pe func_str b) of
        (Some fa, Some fb) \<Rightarrow>
          product_negative fa fb \<and>
          exhausted (regula_falsi_body pe func_str tol) (nat max_iter) 1 (a, b, fa, fb, a) []
      | _ \<Rightarrow> False)"
| "run_exhausted pe func_str (Secant x0 x1) tol max_iter =
     exhausted (secant_body pe func_str tol) (nat max_iter) 1 (x0, x1) []"
| "run_exhausted pe func_str (Newton deriv_str x0) tol max_iter =
     exhausted (newton_body pe func_str deriv_str tol) (nat max_iter) 1 x0 []"
| "run_exhausted pe func_str (Fixed_point x0) tol max_iter =
     exhausted (fixed_point_body pe func_str tol) (nat max_iter) 1 x0 []"
| "run_exhausted pe func_str (Mod_secant x0 delta) tol max_iter =
     exhausted (mod_secant_body pe func_str delta tol) (nat max_iter) 1 x0 []"

fun cli_run_exhausted :: "py_eval \<Rightarrow> string \<Rightarrow> zof_method \<Rightarrow> real \<Rightarrow> int \<Rightarrow> bool" where
  "cli_run_exhausted pe func_str (Bisection a b) tol max_iter =
     (case (cli_safe_eval pe func_str a, cli_safe_eval pe func_str b) of
        (Some fa, Some fb) \<Rightarrow>
          product_negative fa fb \<and>
          cli_exhausted (cli_bisection_body pe func_str tol) (nat max_iter) 1 (a, b, fa)
            [Header ''Bisection'', Table_head ''Root Est (c)'' ''f(c)'', Rule]
      | _ \<Rightarrow> False)"
| "cli_run_exhausted pe func_str (Regula_falsi a b) tol max_iter =
     (case (cli_safe_eval pe func_str a, cli_safe_eval pe func_str b) of
        (Some fa, Some fb) \<Rightarrow>
          product_negative fa fb \<and>
          cli_exhausted (cli_regula_falsi_body pe func_str tol) (nat max_iter) 1
            (a, b, fa, fb, a)
            [Header ''Regula Falsi (False Position)'', Table_head ''Root Est (c)'' ''f(c)'', Rule]
      | _ \<Rightarrow> False)"
| "cli_run_exhausted pe func_str (Secant x0 x1) tol max_iter =
     cli_exhausted (cli_secant_body pe func_str tol) (nat max_iter) 1 (x0, x1)
       [Header ''Secant'', Table_head ''Root Est (x2)'' ''f(x2)'', Rule]"
| "cli_run_exhausted pe func_str (Newton deriv_str x0) tol max_iter =
     cli_exhausted (cli_newton_body pe func_str deriv_str tol) (nat max_iter) 1 x0
       [Header ''Newton-Raphson'', Table_head ''Root Est (x1)'' ''f(x1)'', Rule]"
| "cli_run_exhausted pe func_str (Fixed_point x0) tol max_iter =
     cli_exhausted (cli_fixed_point_body pe func_str tol) (nat max_iter) 1 x0
       [Header ''Fixed Point Iteration'', Solving_line func_str,
        Table_head ''Root Est (x1)'' ''g(x1)'', Rule]"
| "cli_run_exhausted pe func_str (Mod_secant x0 delta) tol max_iter =
     cli_exhausted (cli_mod_secant_body pe func_str delta tol) (nat max_iter) 1 x0
       [Header ''Modified Secant'', Delta_line delta,
        Table_head ''Root Est (x1)'' ''f(x1)'', Rule]"

text \<open>The locals at the start of every pass that is executed, in order.\<close>

fun loop_states ::
  "(int \<Rightarrow> 'st \<Rightarrow> iteration_record list \<Rightarrow> iteration_record list \<times> 'st ctrl) \<Rightarrow>
   nat \<Rightarrow> int \<Rightarrow> 'st \<Rightarrow> iteration_record list \<Rightarrow> 'st list" where
  "loop_states body 0 i st data = []"
| "loop_states body (Suc n) i st data =
     st # (case body i st data of
             (data', Continue st') \<Rightarrow> loop_states body n (i + 1) st' data'
           | _ \<Rightarrow> [])"

text \<open>
  The sign condition of a bracket. Bisection keeps \<open>a\<close>, \<open>b\<close> and \<open>f(a)\<close>; the value at \<open>b\<close> is
  the evaluator's. Regula falsi keeps both function values.
\<close>

definition bisection_bracket_ok :: "py_eval \<Rightarrow> string \<Rightarrow> real \<times> real \<times> real \<Rightarrow> bool" where
  "bisection_bracket_ok pe func_str st =
     (case st of (a, b, fa) \<Rightarrow>
        safe_eval pe func_str a = Some fa \<and>
        (case safe_eval pe func_str b of None \<Rightarrow> False | Some fb \<Rightarrow> fa * fb < 0))"

definition regula_falsi_bracket_ok ::
  "py_eval \<Rightarrow> string \<Rightarrow> real \<times> real \<times> real \<times> real \<times> real \<Rightarrow> bool" where
  "regula_falsi_bracket_ok pe func_str st =
     (case st of (a, b, fa, fb, prev_c) \<Rightarrow>
        safe_eval pe func_str a = Some fa \<and> safe_eval pe func_str b = Some fb \<and> fa * fb < 0)"

text \<open>A pass appends one record, made by \<open>mk_record\<close>, before it continues or breaks.\<close>

definition appends_record ::
  "(int \<Rightarrow> 'st \<Rightarrow> iteration_record list \<Rightarrow> iteration_record list \<times> 'st ctrl) \<Rightarrow> bool" where
  "appends_record body \<longleftrightarrow>
     (\<forall>i st data data' c. body i st data = (data', c) \<longrightarrow>
        (case c of
           Continue st' \<Rightarrow> (\<exists>x f e. data' = data @ [mk_record i x f e])
         | Break rt \<Rightarrow> (\<exists>f e. data' = data @ [mk_record i rt f e])
         | _ \<Rightarrow> True))"






text \<open>
  The list \<^verbatim>\<open>data\<close> as it stands when the loop is left, by falling through, by \<^verbatim>\<open>break\<close>, by
  \<^verbatim>\<open>return\<close> or by an exception: the records appended up to that moment.
\<close>

fun data_at_exit ::
  "(int \<Rightarrow> 'st \<Rightarrow> iteration_record list \<Rightarrow> iteration_record list \<times> 'st ctrl) \<Rightarrow>
   nat \<Rightarrow> int \<Rightarrow> 'st \<Rightarrow> iteration_record list \<Rightarrow> iteration_record list" where
  "data_at_exit body 0 i st data = data"
| "data_at_exit body (Suc n) i st data =
     (case body i st data of
        (data', Continue st') \<Rightarrow> data_at_exit body n (i + 1) st' data'
      | (data', _) \<Rightarrow> data')"

text \<open>The same for a whole run; the list is empty when the run ends before the loop.\<close>

fun appended_records ::
  "py_eval \<Rightarrow> string \<Rightarrow> zof_method \<Rightarrow> real \<Rightarrow> int \<Rightarrow> iteration_record list" where
  "appended_records pe func_str (Bisection a b) tol max_iter =
     (case (safe_eval pe func_str a, safe_eval pe func_str b) of
        (Some fa, Some fb) \<Rightarrow>
          if \<not> product_negative fa fb then []
          else data_at_exit (bisection_body pe func_str tol) (nat max_iter) 1 (a, b, fa) []
      | _ \<Rightarrow> [])"
| "appended_records pe func_str (Regula_falsi a b) tol max_iter =
     (case (safe_eval pe func_str a, safe_eval pe func_str b) of
        (Some fa, Some fb) \<Rightarrow>
          if \<not> product_negative fa fb then []
          else data_at_exit (regula_falsi_body pe func_str tol) (nat max_iter) 1
                 (a, b, fa, fb, a) []
      | _ \<Rightarrow> [])"
| "appended_records pe func_str (Secant x0 x1) tol max_iter =
     data_at_exit (secant_body pe func_str tol) (nat max_iter) 1 (x0, x1) []"
| "appended_records pe func_str (Newton deriv_str x0) tol max_iter =
     data_at_exit (newton_body pe func_str deriv_str tol) (nat max_iter) 1 x0 []"
| "appended_records pe func_str (Fixed_point x0) tol max_iter =
     data_at_exit (fixed_point_body pe func_str tol) (nat max_iter) 1 x0 []"
| "appended_records pe func_str (Mod_secant x0 delta) tol max_iter =
     data_at_exit (mod_secant_body pe func_str delta tol) (nat max_iter) 1 x0 []"

text \<open>
  What a pass computes from its locals before it builds the record: the estimate, the
  function value there and the error metric, unrounded (the right-hand sides of the
  assignments in the loop body). \<open>None\<close> when the pass ends before the record.
\<close>

definition bisection_values ::
  "py_eval \<Rightarrow> string \<Rightarrow> real \<times> real \<times> real \<Rightarrow> (real \<times> real \<times> real) option" where
  "bisection_values pe func_str st =
     (case st of (a, b, fa) \<Rightarrow>
        (case safe_eval pe func_str ((a + b) / 2) of
           None \<Rightarrow> None
         | Some fc \<Rightarrow> Some ((a + b) / 2, fc, \<bar>b - a\<bar>)))"

definition regula_falsi_values ::
  "py_eval \<Rightarrow> string \<Rightarrow> real \<times> real \<times> real \<times> real \<times> real \<Rightarrow>
   (real \<times> real \<times> real) option" where
  "regula_falsi_values pe func_str st =
     (case st of (a, b, fa, fb, prev_c) \<Rightarrow>
        if fb - fa = 0 then None
        else
          (case safe_eval pe func_str ((a * fb - b * fa) / (fb - fa)) of
             None \<Rightarrow> None
           | Some fc \<Rightarrow>
               Some ((a * fb - b * fa) / (fb - fa), fc,
                     \<bar>(a * fb - b * fa) / (fb - fa) - prev_c\<bar>)))"

definition secant_values ::
  "py_eval \<Rightarrow> string \<Rightarrow> real \<times> real \<Rightarrow> (real \<times> real \<times> real) option" where
  "secant_values pe func_str st =
     (case st of (x0, x1) \<Rightarrow>
        (case (safe_eval pe func_str x0, safe_eval pe func_str x1) of
           (Some f0, Some f1) \<Rightarrow>
             if f1 - f0 = 0 then None
             else
               (case safe_eval pe func_str (x1 - (f1 * (x1 - x0)) / (f1 - f0)) of
                  None \<Rightarrow> None
                | Some f2 \<Rightarrow>
                    Some (x1 - (f1 * (x1 - x0)) / (f1 - f0), f2,
                          \<bar>x1 - (f1 * (x1 - x0)) / (f1 - f0) - x1\<bar>))
         | _ \<Rightarrow> None))"

definition newton_values ::
  "py_eval \<Rightarrow> string \<Rightarrow> string \<Rightarrow> real \<Rightarrow> (real \<times> real \<times> real) option" where
  "newton_values pe func_str deriv_str x0 =
     (case (safe_eval pe func_str x0, safe_eval pe deriv_str x0) of
        (Some f0, Some f_prime0) \<Rightarrow>
          if f_prime0 = 0 then None
          else
            (case safe_eval pe func_str (x0 - f0 / f_prime0) of
               None \<Rightarrow> None
             | Some f1 \<Rightarrow> Some (x0 - f0 / f_prime0, f1, \<bar>x0 - f0 / f_prime0 - x0\<bar>))
      | _ \<Rightarrow> None)"

definition fixed_point_values ::
  "py_eval \<Rightarrow> string \<Rightarrow> real \<Rightarrow> (real \<times> real \<times> real) option" where
  "fixed_point_values pe g_str x0 =
     (case safe_eval pe g_str x0 of
        None \<Rightarrow> None
      | Some x1 \<Rightarrow> Some (x1, x1, \<bar>x1 - x0\<bar>))"

definition mod_secant_values ::
  "py_eval \<Rightarrow> string \<Rightarrow> real \<Rightarrow> real \<Rightarrow> (real \<times> real \<times> real) option" where
  "mod_secant_values pe func_str delta x0 =
     (case (safe_eval pe func_str x0, safe_eval pe func_str (x0 + delta * x0)) of
        (Some f0, Some f0_delta) \<Rightarrow>
          if f0_delta - f0 = 0 then None
          else
            (case safe_eval pe func_str (x0 - (delta * x0 * f0) / (f0_delta - f0)) of
               None \<Rightarrow> None
             | Some f1 \<Rightarrow>
                 Some (x0 - (delta * x0 * f0) / (f0_delta - f0), f1,
                       \<bar>x0 - (delta * x0 * f0) / (f0_delta - f0) - x0\<bar>))
      | _ \<Rightarrow> None)"

text \<open>
  The records that rounding gives from the values of successive passes, numbered from \<open>i\<close>;
  \<open>None\<close> when some pass has no values.
\<close>

fun rounded_records ::
  "int \<Rightarrow> (real \<times> real \<times> real) option list \<Rightarrow> iteration_record list option" where
  "rounded_records i [] = Some []"
| "rounded_records i (None # vs) = None"
| "rounded_records i (Some (x, f, e) # vs) =
     (case rounded_records (i + 1) vs of
        None \<Rightarrow> None
      | Some recs \<Rightarrow> Some (mk_record i x f e # recs))"

text \<open>The estimate of the last pass.\<close>

fun last_estimate :: "(real \<times> real \<times> real) option list \<Rightarrow> real option" where
  "last_estimate [] = None"
| "last_estimate [v] = map_option fst v"
| "last_estimate (v # w # vs) = last_estimate (w # vs)"

text \<open>
  Along the locals of successive passes, the unrounded estimate of each pass is among the
  locals of the next one (\<open>carried st' x\<close> says where).
\<close>

fun feeds_next ::
  "('st \<Rightarrow> (real \<times> real \<times> real) option) \<Rightarrow> ('st \<Rightarrow> real \<Rightarrow> bool) \<Rightarrow> 'st list \<Rightarrow> bool" where
  "feeds_next values carried (st # st' # sts) =
     ((case values st of None \<Rightarrow> False | Some (x, f, e) \<Rightarrow> carried st' x) \<and>
      feeds_next values carried (st' # sts))"
| "feeds_next values carried _ = True"

text \<open>
  For a whole run: the values of every executed pass, and whether each estimate is carried
  into the next pass (bisection: as an endpoint; regula falsi: as an endpoint and as
  \<^verbatim>\<open>prev_c\<close>; secant: as \<^verbatim>\<open>x1\<close>; the others: as \<^verbatim>\<open>x0\<close>).
\<close>

fun pass_values ::
  "py_eval \<Rightarrow> string \<Rightarrow> zof_method \<Rightarrow> real \<Rightarrow> int \<Rightarrow> (real \<times> real \<times> real) option list" where
  "pass_values pe func_str (Bisection a b) tol max_iter =
     (case (safe_eval pe func_str a, safe_eval pe func_str b) of
        (Some fa, Some fb) \<Rightarrow>
          if \<not> product_negative fa fb then []
          else map (bisection_values pe func_str)
                 (loop_states (bisection_body pe func_str tol) (nat max_iter) 1 (a, b, fa) [])
      | _ \<Rightarrow> [])"
| "pass_values pe func_str (Regula_falsi a b) tol max_iter =
     (case (safe_eval pe func_str a, safe_eval pe func_str b) of
        (Some fa, Some fb) \<Rightarrow>
          if \<not> product_negative fa fb then []
          else map (regula_falsi_values pe func_str)
                 (loop_states (regula_falsi_body pe func_str tol) (nat max_iter) 1
                    (a, b, fa, fb, a) [])
      | _ \<Rightarrow> [])"
| "pass_values pe func_str (Secant x0 x1) tol max_iter =
     map (secant_values pe func_str)
       (loop_states (secant_body pe func_str tol) (nat max_iter) 1 (x0, x1) [])"
| "pass_values pe func_str (Newton deriv_str x0) tol max_iter =
     map (newton_values pe func_str deriv_str)
       (loop_states (newton_body pe func_str deriv_str tol) (nat max_iter) 1 x0 [])"
| "pass_values pe func_str (Fixed_point x0) tol max_iter =
     map (fixed_point_values pe func_str)
       (loop_states (fixed_point_body pe func_str tol) (nat max_iter) 1 x0 [])"
| "pass_values pe func_str (Mod_secant x0 delta) tol max_iter =
     map (mod_secant_values pe func_str delta)
       (loop_states (mod_secant_body pe func_str delta tol) (nat max_iter) 1 x0 [])"

fun estimates_carried :: "py_eval \<Rightarrow> string \<Rightarrow> zof_method \<Rightarrow> real \<Rightarrow> int \<Rightarrow> bool" where
  "estimates_carried pe func_str (Bisection a b) tol max_iter =
     (case (safe_eval pe func_str a, safe_eval pe func_str b) of
        (Some fa, Some fb) \<Rightarrow>
          feeds_next (bisection_values pe func_str) (\<lambda>(a', b', fa') x. a' = x \<or> b' = x)
            (loop_states (bisection_body pe func_str tol) (nat max_iter) 1 (a, b, fa) [])
      | _ \<Rightarrow> True)"
| "estimates_carried pe func_str (Regula_falsi a b) tol max_iter =
     (case (safe_eval pe func_str a, safe_eval pe func_str b) of
        (Some fa, Some fb) \<Rightarrow>
          feeds_next (regula_falsi_values pe func_str)
            (\<lambda>(a', b', fa', fb', prev_c') x. prev_c' = x \<and> (a' = x \<or> b' = x))
            (loop_states (regula_falsi_body pe func_str tol) (nat max_iter) 1
               (a, b, fa, fb, a) [])
      | _ \<Rightarrow> True)"
| "estimates_carried pe func_str (Secant x0 x1) tol max_iter =
     feeds_next (secant_values pe func_str) (\<lambda>(x0', x1') x. x1' = x)
       (loop_states (secant_body pe func_str tol) (nat max_iter) 1 (x0, x1) [])"
| "estimates_carried pe func_str (Newton deriv_str x0) tol max_iter =
     feeds_next (newton_values pe func_str deriv_str) (\<lambda>x0' x. x0' = x)
       (loop_states (newton_body pe func_str deriv_str tol) (nat max_iter) 1 x0 [])"
| "estimates_carried pe func_str (Fixed_point x0) tol max_iter =
     feeds_next (fixed_point_values pe func_str) (\<lambda>x0' x. x0' = x)
       (loop_states (fixed_point_body pe func_str tol) (nat max_iter) 1 x0 [])"
| "estimates_carried pe func_str (Mod_secant x0 delta) tol max_iter =
     feeds_next (mod_secant_values pe func_str delta) (\<lambda>x0' x. x0' = x)
       (loop_states (mod_secant_body pe func_str delta tol) (nat max_iter) 1 x0 [])"

text \<open>
  A pass that continues or breaks has appended the rounded values of that pass; a pass that
  continues carries its estimate; a pass that breaks returns its estimate as root.
\<close>

definition records_values ::
  "('st \<Rightarrow> (real \<times> real \<times> real) option) \<Rightarrow> ('st \<Rightarrow> real \<Rightarrow> bool) \<Rightarrow>
   (int \<Rightarrow> 'st \<Rightarrow> iteration_record list \<Rightarrow> iteration_record list \<times> 'st ctrl) \<Rightarrow> bool" where
  "records_values values carried body \<longleftrightarrow>
     (\<forall>i st data data' c. body i st data = (data', c) \<longrightarrow>
        (case c of
           Continue st' \<Rightarrow>
             (case values st of
                None \<Rightarrow> False
              | Some (x, f, e) \<Rightarrow> data' = data @ [mk_record i x f e] \<and> carried st' x)
         | Break rt \<Rightarrow>
             (case values st of
                None \<Rightarrow> False
              | Some (x, f, e) \<Rightarrow> x = rt \<and> data' = data @ [mk_record i x f e])
         | _ \<Rightarrow> True))"

text \<open>Whatever way a pass ends, the list it leaves extends the list it found.\<close>

definition extends_data ::
  "(int \<Rightarrow> 'st \<Rightarrow> iteration_record list \<Rightarrow> iteration_record list \<times> 'st ctrl) \<Rightarrow> bool" where
  "extends_data body \<longleftrightarrow>
     (\<forall>i st data data' c. body i st data = (data', c) \<longrightarrow> (\<exists>more. data' = data @ more))"

text \<open>
  A sample of what \<^verbatim>\<open>eval\<close> yields, for the concrete runs below: the value of each listed
  text at a float \<open>x\<close>, over the reals. \<^verbatim>\<open>1/x\<close> raises \<^verbatim>\<open>ZeroDivisionError\<close> at \<open>0\<close>;
  \<^verbatim>\<open>x^2 - 4\<close> raises \<^verbatim>\<open>TypeError\<close>, since \<^verbatim>\<open>^\<close> is the bitwise exclusive or, which a float
  does not support. No run below evaluates a text that is not listed.
\<close>

definition py_eval_sample :: py_eval where
  "py_eval_sample text x =
     (if text = ''x'' then Some x
      else if text = ''x*10'' then Some (x * 10)
      else if text = ''x/3'' then Some (x / 3)
      else if text = ''x**3'' then Some (x ^ 3)
      else if text = ''x**2 - 4'' then Some (x ^ 2 - 4)
      else if text = ''x^2 - 4'' then None
      else if text = ''1/x'' then (if x = 0 then None else Some (1 / x))
      else None)"

section \<open>Facts about the loop\<close>

lemmas sample_eval =
  safe_eval_def cli_safe_eval_def derive_eval_def replace_caret_def py_eval_sample_def
  product_negative_def

lemma appends_bisection: "appends_record (bisection_body pe s tol)"
  unfolding appends_record_def bisection_body_def
  by (auto simp: Let_def split: option.splits if_splits ctrl.splits)

lemma appends_regula_falsi: "appends_record (regula_falsi_body pe s tol)"
  unfolding appends_record_def regula_falsi_body_def
  by (auto simp: Let_def split: option.splits if_splits ctrl.splits)

lemma appends_secant: "appends_record (secant_body pe s tol)"
  unfolding appends_record_def secant_body_def
  by (auto simp: Let_def split: option.splits if_splits ctrl.splits)

lemma appends_newton: "appends_record (newton_body pe s ds tol)"
  unfolding appends_record_def newton_body_def
  by (auto simp: Let_def split: option.splits if_splits ctrl.splits)

lemma appends_fixed_point: "appends_record (fixed_point_body pe s tol)"
  unfolding appends_record_def fixed_point_body_def
  by (auto simp: Let_def split: option.splits if_splits ctrl.splits)

lemma appends_mod_secant: "appends_record (mod_secant_body pe s delta tol)"
  unfolding appends_record_def mod_secant_body_def
  by (auto simp: Let_def split: option.splits if_splits ctrl.splits)

lemma appends_ContinueD:
  "appends_record body \<Longrightarrow> body i st data = (data', Continue st') \<Longrightarrow>
   \<exists>x f e. data' = data @ [mk_record i x f e]"
  unfolding appends_record_def by fastforce

lemma appends_BreakD:
  "appends_record body \<Longrightarrow> body i st data = (data', Break rt) \<Longrightarrow>
   \<exists>f e. data' = data @ [mk_record i rt f e]"
  unfolding appends_record_def by fastforce

lemma for_range_exhausted:
  "exhausted body n i st data \<Longrightarrow> \<exists>d. for_range body n i st data = Data_dict d None False"
  by (induction n arbitrary: i st data) (auto split: prod.splits ctrl.splits)

lemma for_range_exhausted_length:
  "appends_record body \<Longrightarrow> exhausted body n i st data \<Longrightarrow>
   for_range body n i st data = Data_dict d rt cv \<Longrightarrow> length d = length data + n"
proof (induction n arbitrary: i st data)
  case 0
  then show ?case by simp
next
  case (Suc n)
  from Suc.prems(2) obtain data' st' where b: "body i st data = (data', Continue st')"
    and ex: "exhausted body n (i + 1) st' data'"
    by (auto split: prod.splits ctrl.splits)
  from appends_ContinueD[OF Suc.prems(1) b] have len: "length data' = Suc (length data)" by auto
  from Suc.prems(3) b have "for_range body n (i + 1) st' data' = Data_dict d rt cv" by simp
  from Suc.IH[OF Suc.prems(1) ex this] len show ?case by simp
qed

lemma for_range_root_longer:
  "appends_record body \<Longrightarrow> for_range body n i st data = Data_dict d (Some r) cv \<Longrightarrow>
   length data < length d"
proof (induction n arbitrary: i st data)
  case 0
  then show ?case by simp
next
  case (Suc n)
  obtain data' c where b: "body i st data = (data', c)" by (cases "body i st data")
  show ?case
  proof (cases c)
    case (Continue st')
    with b Suc.prems(2) have "for_range body n (i + 1) st' data' = Data_dict d (Some r) cv" by simp
    from Suc.IH[OF Suc.prems(1) this] appends_ContinueD[OF Suc.prems(1) b[unfolded Continue]]
    show ?thesis by auto
  next
    case (Break rt)
    with b Suc.prems(2) appends_BreakD[OF Suc.prems(1) b[unfolded Break]] show ?thesis by auto
  next
    case (Return m)
    with b Suc.prems(2) show ?thesis by simp
  next
    case (Raise e)
    with b Suc.prems(2) show ?thesis by simp
  qed
qed

lemma for_range_failed_prefix:
  "for_range body n i st data = Error_dict msg \<or> for_range body n i st data = Raised e \<Longrightarrow>
   \<exists>k<n. exhausted body k i st data"
proof (induction n arbitrary: i st data)
  case 0
  then show ?case by simp
next
  case (Suc n)
  obtain data' c where b: "body i st data = (data', c)" by (cases "body i st data")
  show ?case
  proof (cases c)
    case (Continue st')
    with b Suc.prems have "for_range body n (i + 1) st' data' = Error_dict msg \<or>
      for_range body n (i + 1) st' data' = Raised e" by simp
    from Suc.IH[OF this] obtain k where "k < n" "exhausted body k (i + 1) st' data'" by blast
    with b Continue have "Suc k < Suc n \<and> exhausted body (Suc k) i st data" by simp
    then show ?thesis by blast
  next
    case (Break rt)
    have "exhausted body 0 i st data" by simp
    then show ?thesis by blast
  next
    case (Return m)
    have "exhausted body 0 i st data" by simp
    then show ?thesis by blast
  next
    case (Raise e)
    have "exhausted body 0 i st data" by simp
    then show ?thesis by blast
  qed
qed

lemma round_half_even_of_int: "round_half_even (of_int k) = k"
  by (simp add: round_half_even_def)

lemma round8_idem: "round8 (round8 v) = round8 v"
  by (simp add: round8_def round_half_even_of_int)

section \<open>The order of the two tests in the web Newton-Raphson solver\<close>

text \<open>
  C10. In \<^verbatim>\<open>solve_newton\<close> the test \<^verbatim>\<open>f_prime0 == 0\<close> comes before the test for \<^verbatim>\<open>None\<close>. In
  every pass, whatever the pass number, the estimate and the records so far: when the
  derivative text evaluates to exactly \<open>0\<close> at the current estimate, the solver returns the
  error "Derivative is zero. Method fails.", also when \<open>f\<close> itself cannot be evaluated there;
  when the derivative text cannot be evaluated, the solver returns "Eval error".
\<close>

theorem newton_zero_derivative_checked_first:
  "(safe_eval pe deriv_str x0 = Some 0 \<longrightarrow>
      for_range (newton_body pe func_str deriv_str tol) (Suc n) i x0 data =
        Error_dict ''Derivative is zero. Method fails.'') \<and>
   (safe_eval pe deriv_str x0 = None \<longrightarrow>
      for_range (newton_body pe func_str deriv_str tol) (Suc n) i x0 data =
        Error_dict ''Eval error'')"
  by (simp add: newton_body_def Let_def split: option.splits)

text \<open>
  At \<open>x0 = 0\<close> with \<open>f = 1/x\<close>, which cannot be evaluated there, and the derivative text \<open>x\<close>,
  which is \<open>0\<close> there; and with the two texts exchanged.
\<close>

theorem newton_zero_derivative_checked_first_witness:
  "safe_eval py_eval_sample ''x'' 0 = Some 0 \<and>
   safe_eval py_eval_sample ''1/x'' 0 = None \<and>
   solve_newton py_eval_sample ''1/x'' ''x'' 0 (1 / 1000000) 1 =
     Error_dict ''Derivative is zero. Method fails.'' \<and>
   solve_newton py_eval_sample ''x'' ''1/x'' 0 (1 / 1000000) 1 = Error_dict ''Eval error''"
proof -
  have d0: "safe_eval py_eval_sample ''x'' 0 = Some 0"
    by (simp add: safe_eval_def replace_caret_def py_eval_sample_def)
  have dn: "safe_eval py_eval_sample ''1/x'' 0 = None"
    by (simp add: safe_eval_def replace_caret_def py_eval_sample_def)
  have one: "nat 1 = Suc 0" by simp
  from newton_zero_derivative_checked_first
    [of py_eval_sample "''x''" 0 "''1/x''" "1 / 1000000" 0 1 "[]"] d0
  have a: "solve_newton py_eval_sample ''1/x'' ''x'' 0 (1 / 1000000) 1 =
     Error_dict ''Derivative is zero. Method fails.''"
    unfolding solve_newton_def one by blast
  from newton_zero_derivative_checked_first
    [of py_eval_sample "''1/x''" 0 "''x''" "1 / 1000000" 0 1 "[]"] dn
  have b: "solve_newton py_eval_sample ''x'' ''1/x'' 0 (1 / 1000000) 1 = Error_dict ''Eval error''"
    unfolding solve_newton_def one by blast
  from d0 dn a b show ?thesis by blast
qed

section \<open>When a pass stops with convergence\<close>

lemma for_range_not_stopped:
  assumes "appends_record body" and "body i st data = (data', Continue st')"
  shows "\<not> (\<exists>d. for_range body (Suc n) i st data = Data_dict d (Some r) True \<and>
              length d = Suc (length data))"
proof
  assume "\<exists>d. for_range body (Suc n) i st data = Data_dict d (Some r) True \<and>
              length d = Suc (length data)"
  then obtain d where d: "for_range body (Suc n) i st data = Data_dict d (Some r) True"
    and len: "length d = Suc (length data)" by blast
  from d assms(2) have "for_range body n (i + 1) st' data' = Data_dict d (Some r) True" by simp
  from for_range_root_longer[OF assms(1) this] have "length data' < length d" .
  moreover from appends_ContinueD[OF assms] have "length data' = Suc (length data)" by auto
  ultimately show False using len by simp
qed

lemma bisection_stops_iff:
  assumes "safe_eval pe s ((a + b) / 2) = Some fc"
  shows "(\<exists>d. for_range (bisection_body pe s tol) (Suc n) i (a, b, fa) data =
              Data_dict d (Some ((a + b) / 2)) True \<and> length d = Suc (length data))
         \<longleftrightarrow> \<bar>fc\<bar> < tol \<or> \<bar>b - a\<bar> < tol"
proof (cases "\<bar>fc\<bar> < tol \<or> \<bar>b - a\<bar> < tol")
  case True
  with assms show ?thesis by (simp add: bisection_body_def Let_def)
next
  case False
  with assms obtain data' st' where
    "bisection_body pe s tol i (a, b, fa) data = (data', Continue st')"
    by (cases "product_negative fa fc") (simp_all add: bisection_body_def Let_def)
  from for_range_not_stopped[OF appends_bisection this] False show ?thesis by blast
qed

lemma regula_falsi_stops_iff:
  assumes "fb - fa \<noteq> 0"
    and "safe_eval pe s ((a * fb - b * fa) / (fb - fa)) = Some fc"
  shows "(\<exists>d. for_range (regula_falsi_body pe s tol) (Suc n) i (a, b, fa, fb, prev_c) data =
              Data_dict d (Some ((a * fb - b * fa) / (fb - fa))) True \<and>
              length d = Suc (length data))
         \<longleftrightarrow> \<bar>fc\<bar> < tol \<or> \<bar>(a * fb - b * fa) / (fb - fa) - prev_c\<bar> < tol"
proof (cases "\<bar>fc\<bar> < tol \<or> \<bar>(a * fb - b * fa) / (fb - fa) - prev_c\<bar> < tol")
  case True
  with assms show ?thesis by (simp add: regula_falsi_body_def Let_def)
next
  case False
  with assms obtain data' st' where
    "regula_falsi_body pe s tol i (a, b, fa, fb, prev_c) data = (data', Continue st')"
    by (cases "product_negative fa fc") (simp_all add: regula_falsi_body_def Let_def)
  from for_range_not_stopped[OF appends_regula_falsi this] False show ?thesis by blast
qed

lemma secant_stops_iff:
  assumes "safe_eval pe s x0 = Some f0" and "safe_eval pe s x1 = Some f1"
    and "f1 - f0 \<noteq> 0"
    and "safe_eval pe s (x1 - (f1 * (x1 - x0)) / (f1 - f0)) = Some f2"
  shows "(\<exists>d. for_range (secant_body pe s tol) (Suc n) i (x0, x1) data =
              Data_dict d (Some (x1 - (f1 * (x1 - x0)) / (f1 - f0))) True \<and>
              length d = Suc (length data))
         \<longleftrightarrow> \<bar>f2\<bar> < tol \<or> \<bar>x1 - (f1 * (x1 - x0)) / (f1 - f0) - x1\<bar> < tol"
proof (cases "\<bar>f2\<bar> < tol \<or> \<bar>x1 - (f1 * (x1 - x0)) / (f1 - f0) - x1\<bar> < tol")
  case True
  with assms show ?thesis by (simp add: secant_body_def Let_def)
next
  case False
  with assms obtain data' st' where
    "secant_body pe s tol i (x0, x1) data = (data', Continue st')"
    by (simp add: secant_body_def Let_def)
  from for_range_not_stopped[OF appends_secant this] False show ?thesis by blast
qed

lemma newton_stops_iff:
  assumes "safe_eval pe s x0 = Some f0" and "safe_eval pe ds x0 = Some p" and "p \<noteq> 0"
    and "safe_eval pe s (x0 - f0 / p) = Some f1"
  shows "(\<exists>d. for_range (newton_body pe s ds tol) (Suc n) i x0 data =
              Data_dict d (Some (x0 - f0 / p)) True \<and> length d = Suc (length data))
         \<longleftrightarrow> \<bar>f1\<bar> < tol \<or> \<bar>x0 - f0 / p - x0\<bar> < tol"
proof (cases "\<bar>f1\<bar> < tol \<or> \<bar>x0 - f0 / p - x0\<bar> < tol")
  case True
  with assms show ?thesis by (simp add: newton_body_def Let_def)
next
  case False
  with assms obtain data' st' where
    "newton_body pe s ds tol i x0 data = (data', Continue st')"
    by (simp add: newton_body_def Let_def)
  from for_range_not_stopped[OF appends_newton this] False show ?thesis by blast
qed

lemma mod_secant_stops_iff:
  assumes "safe_eval pe s x0 = Some f0" and "safe_eval pe s (x0 + delta * x0) = Some fd"
    and "fd - f0 \<noteq> 0"
    and "safe_eval pe s (x0 - (delta * x0 * f0) / (fd - f0)) = Some f1"
  shows "(\<exists>d. for_range (mod_secant_body pe s delta tol) (Suc n) i x0 data =
              Data_dict d (Some (x0 - (delta * x0 * f0) / (fd - f0))) True \<and>
              length d = Suc (length data))
         \<longleftrightarrow> \<bar>f1\<bar> < tol \<or> \<bar>x0 - (delta * x0 * f0) / (fd - f0) - x0\<bar> < tol"
proof (cases "\<bar>f1\<bar> < tol \<or> \<bar>x0 - (delta * x0 * f0) / (fd - f0) - x0\<bar> < tol")
  case True
  with assms show ?thesis by (simp add: mod_secant_body_def Let_def)
next
  case False
  with assms obtain data' st' where
    "mod_secant_body pe s delta tol i x0 data = (data', Continue st')"
    by (simp add: mod_secant_body_def Let_def)
  from for_range_not_stopped[OF appends_mod_secant this] False show ?thesis by blast
qed

lemma fixed_point_stops_iff:
  assumes "safe_eval pe g x0 = Some x1"
  shows "(\<exists>d. for_range (fixed_point_body pe g tol) (Suc n) i x0 data =
              Data_dict d (Some x1) True \<and> length d = Suc (length data))
         \<longleftrightarrow> \<bar>x1 - x0\<bar> < tol"
proof (cases "\<bar>x1 - x0\<bar> < tol")
  case True
  with assms show ?thesis by (simp add: fixed_point_body_def Let_def)
next
  case False
  show ?thesis
  proof (cases "x1 > 10000000000")
    case True
    with assms False have "for_range (fixed_point_body pe g tol) (Suc n) i x0 data =
       Error_dict ''Divergence detected.''"
      by (simp add: fixed_point_body_def Let_def)
    with False show ?thesis by simp
  next
    case nd: False
    with assms False obtain data' st' where
      "fixed_point_body pe g tol i x0 data = (data', Continue st')"
      by (simp add: fixed_point_body_def Let_def)
    from for_range_not_stopped[OF appends_fixed_point this] False show ?thesis by blast
  qed
qed

text \<open>
  C6. In a pass of any of the six web solvers in which every evaluation succeeds (and no
  zero denominator or zero derivative ends the pass before the estimate is computed), the
  loop stops in that pass with \<^verbatim>\<open>converged = true\<close> and the pass's estimate as \<^verbatim>\<open>root\<close>
  exactly when \<open>|f(estimate)| < tol\<close> or the error metric is below \<open>tol\<close>. The fixed-point
  solver stops so exactly when \<open>|x1 - x0| < tol\<close>; it has no residual criterion. The pass
  number, the locals and the records so far are arbitrary; "stops in that pass" is a result
  that holds one record more than before the pass.
\<close>

theorem converged_exactly_when_criterion_met:
  "(safe_eval pe s ((a + b) / 2) = Some fc \<longrightarrow>
      ((\<exists>d. for_range (bisection_body pe s tol) (Suc n) i (a, b, fa) data =
              Data_dict d (Some ((a + b) / 2)) True \<and> length d = Suc (length data))
       \<longleftrightarrow> \<bar>fc\<bar> < tol \<or> \<bar>b - a\<bar> < tol)) \<and>
   (rfb - rfa \<noteq> 0 \<and> safe_eval pe s ((ra * rfb - rb * rfa) / (rfb - rfa)) = Some rfc \<longrightarrow>
      ((\<exists>d. for_range (regula_falsi_body pe s tol) (Suc n) i (ra, rb, rfa, rfb, prev_c) data =
              Data_dict d (Some ((ra * rfb - rb * rfa) / (rfb - rfa))) True \<and>
              length d = Suc (length data))
       \<longleftrightarrow> \<bar>rfc\<bar> < tol \<or> \<bar>(ra * rfb - rb * rfa) / (rfb - rfa) - prev_c\<bar> < tol)) \<and>
   (safe_eval pe s x0 = Some f0 \<and> safe_eval pe s x1 = Some f1 \<and> f1 - f0 \<noteq> 0 \<and>
    safe_eval pe s (x1 - (f1 * (x1 - x0)) / (f1 - f0)) = Some f2 \<longrightarrow>
      ((\<exists>d. for_range (secant_body pe s tol) (Suc n) i (x0, x1) data =
              Data_dict d (Some (x1 - (f1 * (x1 - x0)) / (f1 - f0))) True \<and>
              length d = Suc (length data))
       \<longleftrightarrow> \<bar>f2\<bar> < tol \<or> \<bar>x1 - (f1 * (x1 - x0)) / (f1 - f0) - x1\<bar> < tol)) \<and>
   (safe_eval pe s nx0 = Some nf0 \<and> safe_eval pe deriv_str nx0 = Some p \<and> p \<noteq> 0 \<and>
    safe_eval pe s (nx0 - nf0 / p) = Some nf1 \<longrightarrow>
      ((\<exists>d. for_range (newton_body pe s deriv_str tol) (Suc n) i nx0 data =
              Data_dict d (Some (nx0 - nf0 / p)) True \<and> length d = Suc (length data))
       \<longleftrightarrow> \<bar>nf1\<bar> < tol \<or> \<bar>nx0 - nf0 / p - nx0\<bar> < tol)) \<and>
   (safe_eval pe s mx0 = Some mf0 \<and> safe_eval pe s (mx0 + delta * mx0) = Some mfd \<and>
    mfd - mf0 \<noteq> 0 \<and>
    safe_eval pe s (mx0 - (delta * mx0 * mf0) / (mfd - mf0)) = Some mf1 \<longrightarrow>
      ((\<exists>d. for_range (mod_secant_body pe s delta tol) (Suc n) i mx0 data =
              Data_dict d (Some (mx0 - (delta * mx0 * mf0) / (mfd - mf0))) True \<and>
              length d = Suc (length data))
       \<longleftrightarrow> \<bar>mf1\<bar> < tol \<or> \<bar>mx0 - (delta * mx0 * mf0) / (mfd - mf0) - mx0\<bar> < tol)) \<and>
   (safe_eval pe g_str gx0 = Some gx1 \<longrightarrow>
      ((\<exists>d. for_range (fixed_point_body pe g_str tol) (Suc n) i gx0 data =
              Data_dict d (Some gx1) True \<and> length d = Suc (length data))
       \<longleftrightarrow> \<bar>gx1 - gx0\<bar> < tol))"
  apply (intro conjI impI)
  subgoal by (rule bisection_stops_iff)
  subgoal by (elim conjE) (rule regula_falsi_stops_iff)
  subgoal by (elim conjE) (rule secant_stops_iff)
  subgoal by (elim conjE) (rule newton_stops_iff)
  subgoal by (elim conjE) (rule mod_secant_stops_iff)
  subgoal by (rule fixed_point_stops_iff)
  done

text \<open>
  One pass of each solver on \<open>f = x**2 - 4\<close> (fixed point: \<open>g = x/3\<close>) with \<open>tol = 4\<close>,
  where the criterion holds and the loop stops.
\<close>

theorem converged_exactly_when_criterion_met_witness:
  "(\<exists>d. for_range (bisection_body py_eval_sample ''x**2 - 4'' 4) (Suc 0) 1 (0, 5, - 4) [] =
         Data_dict d (Some ((0 + 5) / 2)) True \<and> length d = 1) \<and>
   (\<exists>d. for_range (regula_falsi_body py_eval_sample ''x**2 - 4'' 4) (Suc 0) 1
           (0, 5, - 4, 21, 0) [] =
         Data_dict d (Some ((0 * 21 - 5 * (- 4)) / (21 - (- 4)))) True \<and>
         length d = 1) \<and>
   (\<exists>d. for_range (secant_body py_eval_sample ''x**2 - 4'' 4) (Suc 0) 1 (0, 5) [] =
         Data_dict d (Some (5 - (21 * (5 - 0)) / (21 - (- 4)))) True \<and>
         length d = 1) \<and>
   (\<exists>d. for_range (newton_body py_eval_sample ''x**2 - 4'' ''x'' 4) (Suc 0) 1 1 [] =
         Data_dict d (Some (1 - (- 3) / 1)) True \<and> length d = 1) \<and>
   (\<exists>d. for_range (mod_secant_body py_eval_sample ''x**2 - 4'' 1 4) (Suc 0) 1 1 [] =
         Data_dict d (Some (1 - (1 * 1 * (- 3)) / (0 - (- 3)))) True \<and>
         length d = 1) \<and>
   (\<exists>d. for_range (fixed_point_body py_eval_sample ''x/3'' 4) (Suc 0) 1 3 [] =
         Data_dict d (Some 1) True \<and> length d = 1)"
proof -
  note t = converged_exactly_when_criterion_met
    [where pe = py_eval_sample and s = "''x**2 - 4''" and tol = 4 and n = 0 and i = 1
       and data = "[]" and a = 0 and b = 5 and fa = "- 4" and fc = "9 / 4"
       and ra = 0 and rb = 5 and rfa = "- 4" and rfb = 21 and prev_c = 0 and rfc = "- 84 / 25"
       and ?x0.0 = 0 and ?x1.0 = 5 and ?f0.0 = "- 4" and ?f1.0 = 21 and ?f2.0 = "- 84 / 25"
       and ?nx0.0 = 1 and ?nf0.0 = "- 3" and deriv_str = "''x''" and p = 1 and ?nf1.0 = 12
       and ?mx0.0 = 1 and delta = 1 and ?mf0.0 = "- 3" and mfd = 0 and ?mf1.0 = 0
       and g_str = "''x/3''" and ?gx0.0 = 3 and ?gx1.0 = 1]
  have h1: "safe_eval py_eval_sample ''x**2 - 4'' ((0 + 5) / 2) = Some (9 / 4)"
    by (simp add: sample_eval power2_eq_square)
  have h2: "(21::real) - (- 4) \<noteq> 0 \<and>
    safe_eval py_eval_sample ''x**2 - 4'' ((0 * 21 - 5 * (- 4)) / (21 - (- 4))) = Some (- 84 / 25)"
    by (simp add: sample_eval power2_eq_square)
  have h3: "safe_eval py_eval_sample ''x**2 - 4'' 0 = Some (- 4) \<and>
    safe_eval py_eval_sample ''x**2 - 4'' 5 = Some 21 \<and> (21::real) - (- 4) \<noteq> 0 \<and>
    safe_eval py_eval_sample ''x**2 - 4'' (5 - (21 * (5 - 0)) / (21 - (- 4))) = Some (- 84 / 25)"
    by (simp add: sample_eval power2_eq_square)
  have h4: "safe_eval py_eval_sample ''x**2 - 4'' 1 = Some (- 3) \<and>
    safe_eval py_eval_sample ''x'' 1 = Some 1 \<and> (1::real) \<noteq> 0 \<and>
    safe_eval py_eval_sample ''x**2 - 4'' (1 - (- 3) / 1) = Some 12"
    by (simp add: sample_eval power2_eq_square)
  have h5: "safe_eval py_eval_sample ''x**2 - 4'' 1 = Some (- 3) \<and>
    safe_eval py_eval_sample ''x**2 - 4'' (1 + 1 * 1) = Some 0 \<and> (0::real) - (- 3) \<noteq> 0 \<and>
    safe_eval py_eval_sample ''x**2 - 4'' (1 - (1 * 1 * (- 3)) / (0 - (- 3))) = Some 0"
    by (simp add: sample_eval power2_eq_square)
  have h6: "safe_eval py_eval_sample ''x/3'' 3 = Some 1"
    by (simp add: sample_eval)
  have c1: "\<bar>9 / 4 :: real\<bar> < 4" by simp
  have c2: "\<bar>- 84 / 25 :: real\<bar> < 4" by simp
  have c4: "\<bar>1 - (- 3) / 1 - (1::real)\<bar> < 4" by simp
  have c5: "\<bar>0::real\<bar> < 4" by simp
  have c6: "\<bar>1 - 3 :: real\<bar> < 4" by simp
  note t2 = t[THEN conjunct2]
  note t3 = t2[THEN conjunct2]
  note t4 = t3[THEN conjunct2]
  note t5 = t4[THEN conjunct2]
  note t6 = t5[THEN conjunct2]
  note r1 = t[THEN conjunct1, THEN mp, OF h1, THEN iffD2, OF disjI1, OF c1]
  note r2 = t2[THEN conjunct1, THEN mp, OF h2, THEN iffD2, OF disjI1, OF c2]
  note r3 = t3[THEN conjunct1, THEN mp, OF h3, THEN iffD2, OF disjI1, OF c2]
  note r4 = t4[THEN conjunct1, THEN mp, OF h4, THEN iffD2, OF disjI2, OF c4]
  note r5 = t5[THEN conjunct1, THEN mp, OF h5, THEN iffD2, OF disjI1, OF c5]
  note r6 = t6[THEN mp, OF h6, THEN iffD2, OF c6]
  show ?thesis
    apply (intro conjI)
    subgoal using r1 by simp
    subgoal using r2 by simp
    subgoal using r3 by simp
    subgoal using r4 by simp
    subgoal using r5 by simp
    subgoal using r6 by simp
    done
qed

section \<open>Reaching the iteration cap\<close>

lemma cli_for_range_exhausted:
  "cli_exhausted body n i st outp \<Longrightarrow>
   \<exists>outp'. cli_for_range body n i st outp = (outp' @ [Line ''Max iterations reached.''], None)"
  by (induction n arbitrary: i st outp) (auto split: prod.splits cli_ctrl.splits)

lemma for_range_exhausted_result:
  assumes "appends_record body" and "exhausted body n i st []"
  shows "(\<exists>d. for_range body n i st [] = Data_dict d None False \<and> length d = n) \<and>
         get_error (for_range body n i st []) = None"
proof -
  from for_range_exhausted[OF assms(2)] obtain d where
    d: "for_range body n i st [] = Data_dict d None False" by blast
  from for_range_exhausted_length[OF assms d] have "length d = n" by simp
  with d show ?thesis by simp
qed

lemma dispatch_exhausted:
  assumes "run_exhausted pe s p tol m"
  shows "(\<exists>d. dispatch pe s p tol m = Data_dict d None False \<and> length d = nat m) \<and>
         get_error (dispatch pe s p tol m) = None"
proof (cases p)
  case (Bisection a b)
  with assms obtain fa fb where e: "safe_eval pe s a = Some fa" "safe_eval pe s b = Some fb"
    "product_negative fa fb" "exhausted (bisection_body pe s tol) (nat m) 1 (a, b, fa) []"
    by (auto split: option.splits)
  from for_range_exhausted_result[OF appends_bisection e(4)] e(1-3) Bisection
  show ?thesis by (simp add: solve_bisection_def)
next
  case (Regula_falsi a b)
  with assms obtain fa fb where e: "safe_eval pe s a = Some fa" "safe_eval pe s b = Some fb"
    "product_negative fa fb" "exhausted (regula_falsi_body pe s tol) (nat m) 1 (a, b, fa, fb, a) []"
    by (auto split: option.splits)
  from for_range_exhausted_result[OF appends_regula_falsi e(4)] e(1-3) Regula_falsi
  show ?thesis by (simp add: solve_regula_falsi_def)
next
  case (Secant x0 x1)
  with assms for_range_exhausted_result[OF appends_secant, of pe s tol "nat m" 1 "(x0, x1)"]
  show ?thesis by (simp add: solve_secant_def)
next
  case (Newton ds x0)
  with assms for_range_exhausted_result[OF appends_newton, of pe s ds tol "nat m" 1 x0]
  show ?thesis by (simp add: solve_newton_def)
next
  case (Fixed_point x0)
  with assms for_range_exhausted_result[OF appends_fixed_point, of pe s tol "nat m" 1 x0]
  show ?thesis by (simp add: solve_fixed_point_def)
next
  case (Mod_secant x0 delta)
  with assms for_range_exhausted_result[OF appends_mod_secant, of pe s delta tol "nat m" 1 x0]
  show ?thesis by (simp add: solve_mod_secant_def)
qed

lemma cli_dispatch_exhausted:
  assumes "cli_run_exhausted pe s p tol m"
  shows "\<exists>outp. cli_dispatch pe s p tol m = (outp @ [Line ''Max iterations reached.''], None)"
proof (cases p)
  case (Bisection a b)
  with assms obtain fa fb where e: "cli_safe_eval pe s a = Some fa"
    "cli_safe_eval pe s b = Some fb" "product_negative fa fb"
    "cli_exhausted (cli_bisection_body pe s tol) (nat m) 1 (a, b, fa)
       [Header ''Bisection'', Table_head ''Root Est (c)'' ''f(c)'', Rule]"
    by (auto split: option.splits)
  from cli_for_range_exhausted[OF e(4)] e(1-3) Bisection
  show ?thesis by (simp add: bisection_def)
next
  case (Regula_falsi a b)
  with assms obtain fa fb where e: "cli_safe_eval pe s a = Some fa"
    "cli_safe_eval pe s b = Some fb" "product_negative fa fb"
    "cli_exhausted (cli_regula_falsi_body pe s tol) (nat m) 1 (a, b, fa, fb, a)
       [Header ''Regula Falsi (False Position)'', Table_head ''Root Est (c)'' ''f(c)'', Rule]"
    by (auto split: option.splits)
  from cli_for_range_exhausted[OF e(4)] e(1-3) Regula_falsi
  show ?thesis by (simp add: regula_falsi_def)
next
  case (Secant x0 x1)
  with assms cli_for_range_exhausted[of "cli_secant_body pe s tol" "nat m" 1 "(x0, x1)"]
  show ?thesis by (simp add: secant_def)
next
  case (Newton ds x0)
  with assms cli_for_range_exhausted[of "cli_newton_body pe s ds tol" "nat m" 1 x0]
  show ?thesis by (simp add: newton_raphson_def)
next
  case (Fixed_point x0)
  with assms cli_for_range_exhausted[of "cli_fixed_point_body pe s tol" "nat m" 1 x0]
  show ?thesis by (simp add: fixed_point_def)
next
  case (Mod_secant x0 delta)
  with assms cli_for_range_exhausted[of "cli_mod_secant_body pe s delta tol" "nat m" 1 x0]
  show ?thesis by (simp add: modified_secant_def)
qed

text \<open>
  C7, as stated, fails for the web solvers: a run that completes all its passes without
  convergence or failure returns \<^verbatim>\<open>{"data": ..., "root": None, "converged": False}\<close>, a dict
  with no description at all. Bisection on \<open>x**2 - 4\<close> over \<open>[0, 5]\<close> with \<open>tol = 1e-6\<close> and
  \<open>max_iter = 2\<close> is exhausted, and its result has no \<^verbatim>\<open>"error"\<close> entry.
\<close>

theorem exhaustion_counterexample:
  "run_exhausted py_eval_sample ''x**2 - 4'' (Bisection 0 5) (1 / 1000000) 2 \<and>
   dispatch py_eval_sample ''x**2 - 4'' (Bisection 0 5) (1 / 1000000) 2 =
     Data_dict
       [\<lparr>rec_iter = 1, rec_root = 5 / 2, rec_func = 9 / 4, rec_error = 5\<rparr>,
        \<lparr>rec_iter = 2, rec_root = 5 / 4, rec_func = - 39 / 16, rec_error = 5 / 2\<rparr>]
       None False \<and>
   get_error (dispatch py_eval_sample ''x**2 - 4'' (Bisection 0 5) (1 / 1000000) 2) = None"
  by (simp add: solve_bisection_def bisection_body_def sample_eval mk_record_def round8_def
      round_half_even_def Let_def eval_nat_numeral)

text \<open>
  C7, amended. For each of the six methods, a run that completes all \<^verbatim>\<open>max_iter\<close> passes
  without meeting a convergence or failure condition ends normally, with no exception: the
  web solver returns \<^verbatim>\<open>converged = False\<close>, no root and the \<^verbatim>\<open>max_iter\<close> records, and no
  description (exhaustion shows only as the absent root); the text prompt prints
  "Max iterations reached." as its last line.
\<close>

theorem exhaustion_reported:
  "(run_exhausted pe func_str p tol max_iter \<longrightarrow>
      (\<exists>d. dispatch pe func_str p tol max_iter = Data_dict d None False \<and>
           length d = nat max_iter) \<and>
      get_error (dispatch pe func_str p tol max_iter) = None) \<and>
   (cli_run_exhausted pe func_str p tol max_iter \<longrightarrow>
      (\<exists>outp. cli_dispatch pe func_str p tol max_iter =
           (outp @ [Line ''Max iterations reached.''], None)))"
  using dispatch_exhausted cli_dispatch_exhausted by blast

text \<open>The same bisection run, in both front ends.\<close>

theorem exhaustion_reported_witness:
  "run_exhausted py_eval_sample ''x**2 - 4'' (Bisection 0 5) (1 / 1000000) 2 \<and>
   cli_run_exhausted py_eval_sample ''x**2 - 4'' (Bisection 0 5) (1 / 1000000) 2 \<and>
   (\<exists>d. dispatch py_eval_sample ''x**2 - 4'' (Bisection 0 5) (1 / 1000000) 2 =
          Data_dict d None False \<and> length d = nat 2) \<and>
   get_error (dispatch py_eval_sample ''x**2 - 4'' (Bisection 0 5) (1 / 1000000) 2) = None \<and>
   (\<exists>outp. cli_dispatch py_eval_sample ''x**2 - 4'' (Bisection 0 5) (1 / 1000000) 2 =
          (outp @ [Line ''Max iterations reached.''], None))"
proof -
  have w: "run_exhausted py_eval_sample ''x**2 - 4'' (Bisection 0 5) (1 / 1000000) 2"
    by (simp add: bisection_body_def sample_eval Let_def eval_nat_numeral)
  have c: "cli_run_exhausted py_eval_sample ''x**2 - 4'' (Bisection 0 5) (1 / 1000000) 2"
    by (simp add: cli_bisection_body_def sample_eval Let_def eval_nat_numeral)
  note t = exhaustion_reported
    [of py_eval_sample "''x**2 - 4''" "Bisection 0 5" "1 / 1000000" 2]
  from t[THEN conjunct1, THEN mp, OF w] t[THEN conjunct2, THEN mp, OF c] w c
  show ?thesis by blast
qed

section \<open>An endpoint that cannot be evaluated\<close>

text \<open>What does hold: bisection reports both failures, regula falsi the sign failure.\<close>

lemma bracketing_precondition_reported:
  "(safe_eval pe s a = None \<or> safe_eval pe s b = None \<longrightarrow>
      solve_bisection pe s a b tol m = Error_dict ''Invalid function or value.'') \<and>
   (safe_eval pe s a = Some fa \<and> safe_eval pe s b = Some fb \<and> \<not> product_negative fa fb \<longrightarrow>
      solve_bisection pe s a b tol m =
        Error_dict ''Bisection fails: f(a) and f(b) must have opposite signs.'' \<and>
      solve_regula_falsi pe s a b tol m =
        Error_dict ''Regula Falsi fails: f(a) and f(b) must have opposite signs.'')"
  by (auto simp: solve_bisection_def solve_regula_falsi_def split: option.splits)

text \<open>
  C3 holds for bisection and fails for regula falsi, which has no test for \<^verbatim>\<open>None\<close> before
  \<^verbatim>\<open>fa * fb\<close>. On \<open>f = 1/x\<close> over \<open>[0, 1]\<close> the evaluator fails at \<open>a = 0\<close>: web bisection
  returns the error "Invalid function or value.", while \<^verbatim>\<open>solve_regula_falsi\<close> raises
  \<^verbatim>\<open>TypeError\<close> to its caller and the text prompt's \<^verbatim>\<open>regula_falsi\<close> raises it after printing
  only its header, with no failure reported.
\<close>

theorem regula_falsi_unevaluable_endpoint:
  "safe_eval py_eval_sample ''1/x'' 0 = None \<and>
   dispatch py_eval_sample ''1/x'' (Regula_falsi 0 1) (1 / 1000000) 50 = Raised TypeError \<and>
   cli_dispatch py_eval_sample ''1/x'' (Regula_falsi 0 1) (1 / 1000000) 50 =
     ([Header ''Regula Falsi (False Position)''], Some TypeError) \<and>
   dispatch py_eval_sample ''1/x'' (Bisection 0 1) (1 / 1000000) 50 =
     Error_dict ''Invalid function or value.''"
  by (simp add: solve_regula_falsi_def regula_falsi_def solve_bisection_def sample_eval)

section \<open>Divergence towards minus infinity\<close>

text \<open>An iterate above \<open>1e10\<close> that has not converged is reported, in any pass.\<close>

lemma fixed_point_positive_divergence_reported:
  assumes "safe_eval pe g x0 = Some x1" and "\<not> \<bar>x1 - x0\<bar> < tol" and "10000000000 < x1"
  shows "for_range (fixed_point_body pe g tol) (Suc n) i x0 data =
           Error_dict ''Divergence detected.''"
  using assms by (simp add: fixed_point_body_def Let_def)

text \<open>
  C5 fails on the code for negative iterates: the test is \<^verbatim>\<open>x0 > 1e10\<close>, on the signed value.
  Fixed-point iteration on \<open>g = x**3\<close> from \<open>x0 = -2\<close> with \<open>max_iter = 5\<close>: the fourth
  iterate is \<open>-2\<^sup>8\<^sup>1\<close>, of magnitude above \<open>1e10\<close>, yet a fifth pass runs and both front ends
  end with the outcome of exhaustion, not a divergence failure.
\<close>

theorem fixed_point_negative_divergence:
  "(10000000000::real) < \<bar>- (2 ^ 81)\<bar> \<and>
   dispatch py_eval_sample ''x**3'' (Fixed_point (- 2)) (1 / 1000000) 5 =
     Data_dict
       [\<lparr>rec_iter = 1, rec_root = - 8, rec_func = - 8, rec_error = 6\<rparr>,
        \<lparr>rec_iter = 2, rec_root = - 512, rec_func = - 512, rec_error = 504\<rparr>,
        \<lparr>rec_iter = 3, rec_root = - 134217728, rec_func = - 134217728,
         rec_error = 134217216\<rparr>,
        \<lparr>rec_iter = 4, rec_root = - (2 ^ 81), rec_func = - (2 ^ 81),
         rec_error = 2 ^ 81 - 134217728\<rparr>,
        \<lparr>rec_iter = 5, rec_root = - (2 ^ 243), rec_func = - (2 ^ 243),
         rec_error = 2 ^ 243 - 2 ^ 81\<rparr>]
       None False \<and>
   cli_dispatch py_eval_sample ''x**3'' (Fixed_point (- 2)) (1 / 1000000) 5 =
     ([Header ''Fixed Point Iteration'', Solving_line ''x**3'',
       Table_head ''Root Est (x1)'' ''g(x1)'', Rule,
       Row 1 (- 8) (- 8) 6, Row 2 (- 512) (- 512) 504,
       Row 3 (- 134217728) (- 134217728) 134217216,
       Row 4 (- (2 ^ 81)) (- (2 ^ 81)) (2 ^ 81 - 134217728),
       Row 5 (- (2 ^ 243)) (- (2 ^ 243)) (2 ^ 243 - 2 ^ 81),
       Line ''Max iterations reached.''], None)"
  by (simp add: solve_fixed_point_def fixed_point_body_def fixed_point_def
      cli_fixed_point_body_def sample_eval mk_record_def round8_def
      round_half_even_def Let_def eval_nat_numeral)

section \<open>What a failing run returns\<close>

lemma extends_bisection: "extends_data (bisection_body pe s tol)"
  unfolding extends_data_def bisection_body_def
  by (auto simp: Let_def split: option.splits if_splits)

lemma extends_regula_falsi: "extends_data (regula_falsi_body pe s tol)"
  unfolding extends_data_def regula_falsi_body_def
  by (auto simp: Let_def split: option.splits if_splits)

lemma extends_secant: "extends_data (secant_body pe s tol)"
  unfolding extends_data_def secant_body_def
  by (auto simp: Let_def split: option.splits if_splits)

lemma extends_newton: "extends_data (newton_body pe s ds tol)"
  unfolding extends_data_def newton_body_def
  by (auto simp: Let_def split: option.splits if_splits)

lemma extends_fixed_point: "extends_data (fixed_point_body pe s tol)"
  unfolding extends_data_def fixed_point_body_def
  by (auto simp: Let_def split: option.splits if_splits)

lemma extends_mod_secant: "extends_data (mod_secant_body pe s delta tol)"
  unfolding extends_data_def mod_secant_body_def
  by (auto simp: Let_def split: option.splits if_splits)

lemma for_range_no_root:
  "for_range body n i st data = Data_dict d None cv \<Longrightarrow> \<not> cv \<and> exhausted body n i st data"
  by (induction n arbitrary: i st data) (auto split: prod.splits ctrl.splits)

lemma for_range_stable:
  "\<not> exhausted body n i st data \<Longrightarrow>
   for_range body (n + j) i st data = for_range body n i st data"
  by (induction n arbitrary: i st data) (auto split: prod.splits ctrl.splits)

lemma for_range_data_at_exit:
  "for_range body n i st data = Data_dict d rt cv \<Longrightarrow> data_at_exit body n i st data = d"
  by (induction n arbitrary: i st data) (auto split: prod.splits ctrl.splits)

lemma data_at_exit_extends:
  "extends_data body \<Longrightarrow> \<exists>more. data_at_exit body n i st data = data @ more"
proof (induction n arbitrary: i st data)
  case 0
  then show ?case by simp
next
  case (Suc n)
  obtain data' c where b: "body i st data = (data', c)" by (cases "body i st data")
  from Suc.prems b obtain m1 where m1: "data' = data @ m1"
    unfolding extends_data_def by blast
  show ?case
  proof (cases c)
    case (Continue st')
    from Suc.IH[OF Suc.prems, of "i + 1" st' data'] obtain m2 where
      "data_at_exit body n (i + 1) st' data' = data' @ m2" by blast
    with b Continue m1 show ?thesis by simp
  qed (use b m1 in simp_all)
qed

lemma data_at_exit_prefix:
  "extends_data body \<Longrightarrow> exhausted body k i st data \<Longrightarrow>
   \<exists>more. data_at_exit body (k + j) i st data = data_at_exit body k i st data @ more"
proof (induction k arbitrary: i st data)
  case 0
  from data_at_exit_extends[OF 0(1), of j i st data] show ?case by simp
next
  case (Suc k)
  from Suc.prems(2) obtain data' st' where b: "body i st data = (data', Continue st')"
    and ex: "exhausted body k (i + 1) st' data'"
    by (auto split: prod.splits ctrl.splits)
  from Suc.IH[OF Suc.prems(1) ex] b show ?case by simp
qed

lemma for_range_failing_pass:
  "for_range body n i st data = Error_dict msg \<or> for_range body n i st data = Raised e \<Longrightarrow>
   \<exists>k<n. exhausted body k i st data \<and>
          for_range body (Suc k) i st data = for_range body n i st data"
proof (induction n arbitrary: i st data)
  case 0
  then show ?case by simp
next
  case (Suc n)
  obtain data' c where b: "body i st data = (data', c)" by (cases "body i st data")
  show ?case
  proof (cases c)
    case (Continue st')
    with b Suc.prems have "for_range body n (i + 1) st' data' = Error_dict msg \<or>
      for_range body n (i + 1) st' data' = Raised e" by simp
    from Suc.IH[OF this] obtain k where k: "k < n" "exhausted body k (i + 1) st' data'"
      "for_range body (Suc k) (i + 1) st' data' = for_range body n (i + 1) st' data'" by blast
    with b Continue have "Suc k < Suc n \<and> exhausted body (Suc k) i st data \<and>
      for_range body (Suc (Suc k)) i st data = for_range body (Suc n) i st data" by simp
    then show ?thesis by blast
  next
    case (Break rt)
    with b Suc.prems show ?thesis by simp
  next
    case (Return m)
    with b have "exhausted body 0 i st data \<and>
      for_range body (Suc 0) i st data = for_range body (Suc n) i st data" by simp
    then show ?thesis by blast
  next
    case (Raise x)
    with b have "exhausted body 0 i st data \<and>
      for_range body (Suc 0) i st data = for_range body (Suc n) i st data" by simp
    then show ?thesis by blast
  qed
qed

lemma exhausted_take:
  assumes "appends_record body" and "extends_data body" and "exhausted body k i st []"
    and "k \<le> n"
  shows "\<exists>d. for_range body k i st [] = Data_dict d None False \<and> length d = k \<and>
             take k (data_at_exit body n i st []) = d"
proof -
  from for_range_exhausted_result[OF assms(1,3)] obtain d where
    d: "for_range body k i st [] = Data_dict d None False" "length d = k" by blast
  from assms(4) obtain j where n: "n = k + j" by (auto simp: le_iff_add)
  from data_at_exit_prefix[OF assms(2,3), of j] for_range_data_at_exit[OF d(1)] n
  obtain more where "data_at_exit body n i st [] = d @ more" by auto
  with d show ?thesis by simp
qed

text \<open>The three facts about a run given as the loop from fixed initial locals.\<close>

lemma loop_run_facts:
  fixes D :: "int \<Rightarrow> result" and A :: "int \<Rightarrow> iteration_record list"
  assumes ap: "appends_record body" and ex: "extends_data body"
    and D: "\<And>j. D j = for_range body (nat j) 1 st []"
    and A: "\<And>j. A j = data_at_exit body (nat j) 1 st []"
  shows "(D (int k) = Data_dict d None False \<and>
          (D (int k + 1) = Error_dict msg \<or> D (int k + 1) = Raised e) \<and> int k < m \<longrightarrow>
            D m = D (int k + 1) \<and> get_data (D m) = None \<and> length d = k \<and> take k (A m) = d) \<and>
         (D m = Error_dict msg \<or> D m = Raised e \<longrightarrow>
            get_data (D m) = None \<and>
            ((D 0 = D m \<and> A m = []) \<or>
             (\<exists>k d. int k < m \<and> D (int k) = Data_dict d None False \<and> D (int k + 1) = D m \<and>
                    length d = k \<and> take k (A m) = d))) \<and>
         (D n = Data_dict d' rt cv \<longrightarrow> A n = d')"
proof -
  have c1: "D (int k) = Data_dict d None False \<and>
          (D (int k + 1) = Error_dict msg \<or> D (int k + 1) = Raised e) \<and> int k < m \<longrightarrow>
            D m = D (int k + 1) \<and> get_data (D m) = None \<and> length d = k \<and> take k (A m) = d"
  proof
    assume h: "D (int k) = Data_dict d None False \<and>
      (D (int k + 1) = Error_dict msg \<or> D (int k + 1) = Raised e) \<and> int k < m"
    have nk: "nat (int k) = k" "nat (int k + 1) = Suc k" by simp_all
    from h have dk: "for_range body k 1 st [] = Data_dict d None False"
      and fk: "for_range body (Suc k) 1 st [] = Error_dict msg \<or>
               for_range body (Suc k) 1 st [] = Raised e"
      unfolding D nk by blast+
    from h have km: "Suc k \<le> nat m" by linarith
    from for_range_no_root[OF dk] have exk: "exhausted body k 1 st []" by simp
    from fk for_range_exhausted[of body "Suc k" 1 st "[]"]
    have nex: "\<not> exhausted body (Suc k) 1 st []" by auto
    from km obtain j where j: "nat m = Suc k + j" by (auto simp: le_iff_add)
    from for_range_stable[OF nex, of j] j
    have same: "D m = D (int k + 1)" unfolding D nk by simp
    moreover from same fk have "get_data (D m) = None" unfolding D nk by auto
    moreover from km have kle: "k \<le> nat m" by simp
    from exhausted_take[OF ap ex exk kle] dk
    have "length d = k \<and> take k (A m) = d" unfolding A by auto
    ultimately show "D m = D (int k + 1) \<and> get_data (D m) = None \<and> length d = k \<and>
      take k (A m) = d" by blast
  qed
  have c2: "D m = Error_dict msg \<or> D m = Raised e \<longrightarrow>
            get_data (D m) = None \<and>
            ((D 0 = D m \<and> A m = []) \<or>
             (\<exists>k d. int k < m \<and> D (int k) = Data_dict d None False \<and> D (int k + 1) = D m \<and>
                    length d = k \<and> take k (A m) = d))"
  proof
    assume f: "D m = Error_dict msg \<or> D m = Raised e"
    then have f': "for_range body (nat m) 1 st [] = Error_dict msg \<or>
      for_range body (nat m) 1 st [] = Raised e" by (simp add: D)
    from for_range_failing_pass[OF f'] obtain k where k: "k < nat m"
      "exhausted body k 1 st []"
      "for_range body (Suc k) 1 st [] = for_range body (nat m) 1 st []" by blast
    from k(1) have kle: "k \<le> nat m" by simp
    from exhausted_take[OF ap ex k(2) kle] obtain d where
      d: "for_range body k 1 st [] = Data_dict d None False" "length d = k"
      "take k (A m) = d" unfolding A by blast
    have nk: "nat (int k) = k" "nat (int k + 1) = Suc k" by simp_all
    from k(1) have "int k < m" by linarith
    with k d have "int k < m \<and> D (int k) = Data_dict d None False \<and> D (int k + 1) = D m \<and>
      length d = k \<and> take k (A m) = d" unfolding D nk by simp
    moreover from f have "get_data (D m) = None" by auto
    ultimately show "get_data (D m) = None \<and>
      ((D 0 = D m \<and> A m = []) \<or>
       (\<exists>k d. int k < m \<and> D (int k) = Data_dict d None False \<and> D (int k + 1) = D m \<and>
              length d = k \<and> take k (A m) = d))" by blast
  qed
  have c3: "D n = Data_dict d' rt cv \<longrightarrow> A n = d'"
    by (simp add: D A for_range_data_at_exit)
  show ?thesis by (intro conjI) (rule c1, rule c2, rule c3)
qed

text \<open>The same facts about a run that ends before the loop.\<close>

lemma early_run_facts:
  fixes D :: "int \<Rightarrow> result" and A :: "int \<Rightarrow> iteration_record list"
  assumes D: "\<And>j. D j = F" and F: "get_data F = None" and A: "\<And>j. A j = []"
  shows "(D (int k) = Data_dict d None False \<and>
          (D (int k + 1) = Error_dict msg \<or> D (int k + 1) = Raised e) \<and> int k < m \<longrightarrow>
            D m = D (int k + 1) \<and> get_data (D m) = None \<and> length d = k \<and> take k (A m) = d) \<and>
         (D m = Error_dict msg \<or> D m = Raised e \<longrightarrow>
            get_data (D m) = None \<and>
            ((D 0 = D m \<and> A m = []) \<or>
             (\<exists>k d. int k < m \<and> D (int k) = Data_dict d None False \<and> D (int k + 1) = D m \<and>
                    length d = k \<and> take k (A m) = d))) \<and>
         (D n = Data_dict d' rt cv \<longrightarrow> A n = d')"
  using F by (auto simp: D A)

lemma dispatch_failure_facts:
  "(dispatch pe s p tol (int k) = Data_dict d None False \<and>
    (dispatch pe s p tol (int k + 1) = Error_dict msg \<or>
     dispatch pe s p tol (int k + 1) = Raised e) \<and> int k < m \<longrightarrow>
      dispatch pe s p tol m = dispatch pe s p tol (int k + 1) \<and>
      get_data (dispatch pe s p tol m) = None \<and> length d = k \<and>
      take k (appended_records pe s p tol m) = d) \<and>
   (dispatch pe s p tol m = Error_dict msg \<or> dispatch pe s p tol m = Raised e \<longrightarrow>
      get_data (dispatch pe s p tol m) = None \<and>
      ((dispatch pe s p tol 0 = dispatch pe s p tol m \<and> appended_records pe s p tol m = []) \<or>
       (\<exists>k d. int k < m \<and> dispatch pe s p tol (int k) = Data_dict d None False \<and>
              dispatch pe s p tol (int k + 1) = dispatch pe s p tol m \<and>
              length d = k \<and> take k (appended_records pe s p tol m) = d))) \<and>
   (dispatch pe s p tol n = Data_dict d' rt cv \<longrightarrow> appended_records pe s p tol n = d')"
proof (cases p)
  case (Bisection a b)
  show ?thesis
  proof (cases "\<exists>fa fb. safe_eval pe s a = Some fa \<and> safe_eval pe s b = Some fb \<and>
      product_negative fa fb")
    case True
    then obtain fa fb where e: "safe_eval pe s a = Some fa" "safe_eval pe s b = Some fb"
      "product_negative fa fb" by blast
    show ?thesis
      by (rule loop_run_facts[OF appends_bisection extends_bisection,
          where D = "dispatch pe s p tol" and A = "appended_records pe s p tol"
            and st = "(a, b, fa)"])
        (simp_all add: Bisection e solve_bisection_def)
  next
    case False
    then obtain F where "\<And>j. dispatch pe s p tol j = F" "get_data F = None"
      "\<And>j. appended_records pe s p tol j = []"
      using Bisection by (cases "safe_eval pe s a"; cases "safe_eval pe s b")
        (auto simp: solve_bisection_def)
    then show ?thesis
      by (rule early_run_facts[where D = "dispatch pe s p tol"
            and A = "appended_records pe s p tol"])
  qed
next
  case (Regula_falsi a b)
  show ?thesis
  proof (cases "\<exists>fa fb. safe_eval pe s a = Some fa \<and> safe_eval pe s b = Some fb \<and>
      product_negative fa fb")
    case True
    then obtain fa fb where e: "safe_eval pe s a = Some fa" "safe_eval pe s b = Some fb"
      "product_negative fa fb" by blast
    show ?thesis
      by (rule loop_run_facts[OF appends_regula_falsi extends_regula_falsi,
          where D = "dispatch pe s p tol" and A = "appended_records pe s p tol"
            and st = "(a, b, fa, fb, a)"])
        (simp_all add: Regula_falsi e solve_regula_falsi_def)
  next
    case False
    then obtain F where "\<And>j. dispatch pe s p tol j = F" "get_data F = None"
      "\<And>j. appended_records pe s p tol j = []"
      using Regula_falsi by (cases "safe_eval pe s a"; cases "safe_eval pe s b")
        (auto simp: solve_regula_falsi_def)
    then show ?thesis
      by (rule early_run_facts[where D = "dispatch pe s p tol"
            and A = "appended_records pe s p tol"])
  qed
next
  case (Secant x0 x1)
  show ?thesis
    by (rule loop_run_facts[OF appends_secant extends_secant,
          where D = "dispatch pe s p tol" and A = "appended_records pe s p tol"
            and st = "(x0, x1)"])
      (simp_all add: Secant solve_secant_def)
next
  case (Newton ds x0)
  show ?thesis
    by (rule loop_run_facts[OF appends_newton extends_newton,
          where D = "dispatch pe s p tol" and A = "appended_records pe s p tol"
            and st = "x0"])
      (simp_all add: Newton solve_newton_def)
next
  case (Fixed_point x0)
  show ?thesis
    by (rule loop_run_facts[OF appends_fixed_point extends_fixed_point,
          where D = "dispatch pe s p tol" and A = "appended_records pe s p tol"
            and st = "x0"])
      (simp_all add: Fixed_point solve_fixed_point_def)
next
  case (Mod_secant x0 delta)
  show ?thesis
    by (rule loop_run_facts[OF appends_mod_secant extends_mod_secant,
          where D = "dispatch pe s p tol" and A = "appended_records pe s p tol"
            and st = "x0"])
      (simp_all add: Mod_secant solve_mod_secant_def)
qed

text \<open>
  C2, as stated, fails for the web solvers: every failure path is
  \<^verbatim>\<open>return {"error": ...}\<close>, a dict without the list \<^verbatim>\<open>data\<close>. Fixed-point iteration on
  \<open>g = x**3\<close> from \<open>x0 = 2\<close> completes three passes (the run capped at 3 returns their three
  records), detects divergence in the fourth, and then returns the description alone.
\<close>

theorem failure_keeps_records_counterexample:
  "dispatch py_eval_sample ''x**3'' (Fixed_point 2) (1 / 1000000) 3 =
     Data_dict
       [\<lparr>rec_iter = 1, rec_root = 8, rec_func = 8, rec_error = 6\<rparr>,
        \<lparr>rec_iter = 2, rec_root = 512, rec_func = 512, rec_error = 504\<rparr>,
        \<lparr>rec_iter = 3, rec_root = 134217728, rec_func = 134217728, rec_error = 134217216\<rparr>]
       None False \<and>
   dispatch py_eval_sample ''x**3'' (Fixed_point 2) (1 / 1000000) 10 =
     Error_dict ''Divergence detected.'' \<and>
   get_data (dispatch py_eval_sample ''x**3'' (Fixed_point 2) (1 / 1000000) 10) = None"
  by (simp add: solve_fixed_point_def fixed_point_body_def sample_eval mk_record_def round8_def
      round_half_even_def Let_def eval_nat_numeral)

text \<open>
  C2, amended. When the first \<open>k\<close> passes of a web solver complete (the run capped at \<open>k\<close>
  returns their \<open>k\<close> records) and the next pass fails, with an error dict or an exception,
  then every run with \<^verbatim>\<open>max_iter > k\<close> ends in that same failure, and what it returns
  holds no records, although those \<open>k\<close> records were the first \<open>k\<close> entries of the list
  \<^verbatim>\<open>data\<close> when the solver was left. Every failing run is of this kind, for some \<open>k\<close>, or
  has failed before the loop with \<^verbatim>\<open>data\<close> empty. A run that does not fail returns the
  whole list.
\<close>

theorem failure_returns_no_records:
  "(dispatch pe func_str p tol (int k) = Data_dict d None False \<and>
    (dispatch pe func_str p tol (int k + 1) = Error_dict msg \<or>
     dispatch pe func_str p tol (int k + 1) = Raised e) \<and> int k < max_iter \<longrightarrow>
      dispatch pe func_str p tol max_iter = dispatch pe func_str p tol (int k + 1) \<and>
      get_data (dispatch pe func_str p tol max_iter) = None \<and> length d = k \<and>
      take k (appended_records pe func_str p tol max_iter) = d) \<and>
   (dispatch pe func_str p tol max_iter = Error_dict msg \<or>
    dispatch pe func_str p tol max_iter = Raised e \<longrightarrow>
      get_data (dispatch pe func_str p tol max_iter) = None \<and>
      ((dispatch pe func_str p tol 0 = dispatch pe func_str p tol max_iter \<and>
        appended_records pe func_str p tol max_iter = []) \<or>
       (\<exists>k d. int k < max_iter \<and> dispatch pe func_str p tol (int k) = Data_dict d None False \<and>
              dispatch pe func_str p tol (int k + 1) = dispatch pe func_str p tol max_iter \<and>
              length d = k \<and> take k (appended_records pe func_str p tol max_iter) = d))) \<and>
   (dispatch pe func_str p tol n = Data_dict d' rt cv \<longrightarrow>
      appended_records pe func_str p tol n = d')"
  by (rule dispatch_failure_facts)

text \<open>
  The fixed-point run above with \<open>k = 3\<close> and \<^verbatim>\<open>max_iter = 10\<close>: the list held four records
  when divergence was reported.
\<close>

theorem failure_returns_no_records_witness:
  "dispatch py_eval_sample ''x**3'' (Fixed_point 2) (1 / 1000000) (int 3) =
     Data_dict
       [\<lparr>rec_iter = 1, rec_root = 8, rec_func = 8, rec_error = 6\<rparr>,
        \<lparr>rec_iter = 2, rec_root = 512, rec_func = 512, rec_error = 504\<rparr>,
        \<lparr>rec_iter = 3, rec_root = 134217728, rec_func = 134217728, rec_error = 134217216\<rparr>]
       None False \<and>
   dispatch py_eval_sample ''x**3'' (Fixed_point 2) (1 / 1000000) (int 3 + 1) =
     Error_dict ''Divergence detected.'' \<and>
   dispatch py_eval_sample ''x**3'' (Fixed_point 2) (1 / 1000000) 10 =
     Error_dict ''Divergence detected.'' \<and>
   get_data (dispatch py_eval_sample ''x**3'' (Fixed_point 2) (1 / 1000000) 10) = None \<and>
   take 3 (appended_records py_eval_sample ''x**3'' (Fixed_point 2) (1 / 1000000) 10) =
     [\<lparr>rec_iter = 1, rec_root = 8, rec_func = 8, rec_error = 6\<rparr>,
      \<lparr>rec_iter = 2, rec_root = 512, rec_func = 512, rec_error = 504\<rparr>,
      \<lparr>rec_iter = 3, rec_root = 134217728, rec_func = 134217728, rec_error = 134217216\<rparr>] \<and>
   length (appended_records py_eval_sample ''x**3'' (Fixed_point 2) (1 / 1000000) 10) = 4 \<and>
   appended_records py_eval_sample ''x**3'' (Fixed_point 2) (1 / 1000000) 3 =
     [\<lparr>rec_iter = 1, rec_root = 8, rec_func = 8, rec_error = 6\<rparr>,
      \<lparr>rec_iter = 2, rec_root = 512, rec_func = 512, rec_error = 504\<rparr>,
      \<lparr>rec_iter = 3, rec_root = 134217728, rec_func = 134217728, rec_error = 134217216\<rparr>]"
proof -
  let ?d = "[\<lparr>rec_iter = 1, rec_root = 8, rec_func = 8, rec_error = 6\<rparr>,
      \<lparr>rec_iter = 2, rec_root = 512, rec_func = 512, rec_error = 504\<rparr>,
      \<lparr>rec_iter = 3, rec_root = 134217728, rec_func = 134217728, rec_error = 134217216\<rparr>]"
  have r3: "dispatch py_eval_sample ''x**3'' (Fixed_point 2) (1 / 1000000) (int 3) =
     Data_dict ?d None False"
    by (simp add: solve_fixed_point_def fixed_point_body_def sample_eval mk_record_def
        round8_def round_half_even_def Let_def eval_nat_numeral)
  have r4: "dispatch py_eval_sample ''x**3'' (Fixed_point 2) (1 / 1000000) (int 3 + 1) =
     Error_dict ''Divergence detected.''"
    by (simp add: solve_fixed_point_def fixed_point_body_def sample_eval Let_def
        eval_nat_numeral)
  have l: "length (appended_records py_eval_sample ''x**3'' (Fixed_point 2) (1 / 1000000) 10)
     = 4"
    by (simp add: fixed_point_body_def sample_eval Let_def eval_nat_numeral)
  have lt: "int 3 < 10" by simp
  note t = failure_returns_no_records
    [where pe = py_eval_sample and func_str = "''x**3''" and p = "Fixed_point 2"
       and tol = "1 / 1000000" and k = 3 and d = ?d and msg = "''Divergence detected.''"
       and max_iter = 10 and n = 3 and d' = ?d and rt = None and cv = False]
  from r3 r4 lt have h: "dispatch py_eval_sample ''x**3'' (Fixed_point 2) (1 / 1000000) (int 3) =
      Data_dict ?d None False \<and>
    (dispatch py_eval_sample ''x**3'' (Fixed_point 2) (1 / 1000000) (int 3 + 1) =
       Error_dict ''Divergence detected.'' \<or>
     dispatch py_eval_sample ''x**3'' (Fixed_point 2) (1 / 1000000) (int 3 + 1) = Raised e) \<and>
    int 3 < 10" by blast
  note a = t[THEN conjunct1, THEN mp, OF h]
  from r3 have r3': "dispatch py_eval_sample ''x**3'' (Fixed_point 2) (1 / 1000000) 3 =
     Data_dict ?d None False" by simp
  note c = t[THEN conjunct2, THEN conjunct2, THEN mp, OF r3']
  from a r4 have f10: "dispatch py_eval_sample ''x**3'' (Fixed_point 2) (1 / 1000000) 10 =
     Error_dict ''Divergence detected.''" by simp
  from a have g: "get_data (dispatch py_eval_sample ''x**3'' (Fixed_point 2) (1 / 1000000) 10)
     = None" by blast
  from a have tk: "take 3 (appended_records py_eval_sample ''x**3'' (Fixed_point 2)
     (1 / 1000000) 10) = ?d" by blast
  show ?thesis
    by (intro conjI) (rule r3, rule r4, rule f10, rule g, rule tk, rule l, rule c)
qed

section \<open>What the records hold\<close>

lemma values_bisection:
  "records_values (bisection_values pe s) (\<lambda>(a', b', fa') x. a' = x \<or> b' = x)
     (bisection_body pe s tol)"
  unfolding records_values_def bisection_body_def bisection_values_def
  by (auto simp: Let_def split: option.splits if_splits)

lemma values_regula_falsi:
  "records_values (regula_falsi_values pe s)
     (\<lambda>(a', b', fa', fb', prev_c') x. prev_c' = x \<and> (a' = x \<or> b' = x))
     (regula_falsi_body pe s tol)"
  unfolding records_values_def regula_falsi_body_def regula_falsi_values_def
  by (auto simp: Let_def split: option.splits if_splits)

lemma values_secant:
  "records_values (secant_values pe s) (\<lambda>(x0', x1') x. x1' = x) (secant_body pe s tol)"
  unfolding records_values_def secant_body_def secant_values_def
  by (auto simp: Let_def split: option.splits if_splits)

lemma values_newton:
  "records_values (newton_values pe s ds) (\<lambda>x0' x. x0' = x) (newton_body pe s ds tol)"
  unfolding records_values_def newton_body_def newton_values_def
  by (auto simp: Let_def split: option.splits if_splits)

lemma values_fixed_point:
  "records_values (fixed_point_values pe s) (\<lambda>x0' x. x0' = x) (fixed_point_body pe s tol)"
  unfolding records_values_def fixed_point_body_def fixed_point_values_def
  by (auto simp: Let_def split: option.splits if_splits)

lemma values_mod_secant:
  "records_values (mod_secant_values pe s delta) (\<lambda>x0' x. x0' = x)
     (mod_secant_body pe s delta tol)"
  unfolding records_values_def mod_secant_body_def mod_secant_values_def
  by (auto simp: Let_def split: option.splits if_splits)

lemma loop_states_head:
  "loop_states body n i st data = [] \<or>
   (\<exists>rest. loop_states body n i st data = st # rest)"
  by (cases n) simp_all

lemma for_range_values:
  assumes rv: "records_values V H body"
    and "for_range body n i st data = Data_dict d rt cv"
  shows "\<exists>d'. d = data @ d' \<and>
           rounded_records i (map V (loop_states body n i st data)) = Some d' \<and>
           feeds_next V H (loop_states body n i st data) \<and>
           (rt \<noteq> None \<longrightarrow> rt = last_estimate (map V (loop_states body n i st data)))"
  using assms(2)
proof (induction n arbitrary: i st data)
  case 0
  then show ?case by simp
next
  case (Suc n)
  obtain data' c where b: "body i st data = (data', c)" by (cases "body i st data")
  show ?case
  proof (cases c)
    case (Continue st')
    from rv b Continue have "case V st of None \<Rightarrow> False
      | Some (x, f, e) \<Rightarrow> data' = data @ [mk_record i x f e] \<and> H st' x"
      unfolding records_values_def by fastforce
    then obtain x f e where v: "V st = Some (x, f, e)"
      and d': "data' = data @ [mk_record i x f e]" and h: "H st' x"
      by (auto split: option.splits)
    let ?rest = "loop_states body n (i + 1) st' data'"
    from Suc.prems b Continue have fr: "for_range body n (i + 1) st' data' = Data_dict d rt cv"
      by simp
    from Suc.IH[OF fr] obtain d2 where d2: "d = data' @ d2"
      "rounded_records (i + 1) (map V ?rest) = Some d2" "feeds_next V H ?rest"
      "rt \<noteq> None \<longrightarrow> rt = last_estimate (map V ?rest)" by blast
    have ls: "loop_states body (Suc n) i st data = st # ?rest" using b Continue by simp
    from loop_states_head[of body n "i + 1" st' data']
    show ?thesis
    proof
      assume e: "?rest = []"
      then have "n = 0" by (cases n) simp_all
      with fr have "rt = None" by simp
      with d2 d' v e ls show ?thesis by simp
    next
      assume "\<exists>rest. ?rest = st' # rest"
      then obtain rest where r: "?rest = st' # rest" by blast
      with d2 d' v h ls show ?thesis by simp
    qed
  next
    case (Break r)
    from rv b Break have "case V st of None \<Rightarrow> False
      | Some (x, f, e) \<Rightarrow> x = r \<and> data' = data @ [mk_record i x f e]"
      unfolding records_values_def by fastforce
    then obtain f e where v: "V st = Some (r, f, e)"
      and d': "data' = data @ [mk_record i r f e]"
      by (auto split: option.splits)
    from Suc.prems b Break have "d = data'" "rt = Some r" by simp_all
    with v d' b Break show ?thesis by simp
  next
    case (Return m)
    with b Suc.prems show ?thesis by simp
  next
    case (Raise x)
    with b Suc.prems show ?thesis by simp
  qed
qed

lemma for_range_values_start:
  assumes "records_values V H body" and "for_range body n 1 st [] = Data_dict d rt cv"
  shows "rounded_records 1 (map V (loop_states body n 1 st [])) = Some d \<and>
         feeds_next V H (loop_states body n 1 st []) \<and>
         (rt \<noteq> None \<longrightarrow> rt = last_estimate (map V (loop_states body n 1 st [])))"
  using for_range_values[OF assms] by simp

lemma dispatch_values:
  assumes "dispatch pe s p tol m = Data_dict d rt cv"
  shows "rounded_records 1 (pass_values pe s p tol m) = Some d \<and>
         estimates_carried pe s p tol m \<and>
         (rt \<noteq> None \<longrightarrow> rt = last_estimate (pass_values pe s p tol m))"
proof (cases p)
  case (Bisection a b)
  with assms obtain fa fb where e: "safe_eval pe s a = Some fa" "safe_eval pe s b = Some fb"
    "product_negative fa fb"
    "for_range (bisection_body pe s tol) (nat m) 1 (a, b, fa) [] = Data_dict d rt cv"
    by (auto simp: solve_bisection_def split: option.splits if_splits)
  from for_range_values_start[OF values_bisection e(4)] e(1-3) Bisection
  show ?thesis by simp
next
  case (Regula_falsi a b)
  with assms obtain fa fb where e: "safe_eval pe s a = Some fa" "safe_eval pe s b = Some fb"
    "product_negative fa fb"
    "for_range (regula_falsi_body pe s tol) (nat m) 1 (a, b, fa, fb, a) [] = Data_dict d rt cv"
    by (auto simp: solve_regula_falsi_def split: option.splits if_splits)
  from for_range_values_start[OF values_regula_falsi e(4)] e(1-3) Regula_falsi
  show ?thesis by simp
next
  case (Secant x0 x1)
  with assms have
    "for_range (secant_body pe s tol) (nat m) 1 (x0, x1) [] = Data_dict d rt cv"
    by (simp add: solve_secant_def)
  from for_range_values_start[OF values_secant this] Secant show ?thesis by simp
next
  case (Newton ds x0)
  with assms have
    "for_range (newton_body pe s ds tol) (nat m) 1 x0 [] = Data_dict d rt cv"
    by (simp add: solve_newton_def)
  from for_range_values_start[OF values_newton this] Newton show ?thesis by simp
next
  case (Fixed_point x0)
  with assms have
    "for_range (fixed_point_body pe s tol) (nat m) 1 x0 [] = Data_dict d rt cv"
    by (simp add: solve_fixed_point_def)
  from for_range_values_start[OF values_fixed_point this] Fixed_point show ?thesis by simp
next
  case (Mod_secant x0 delta)
  with assms have
    "for_range (mod_secant_body pe s delta tol) (nat m) 1 x0 [] = Data_dict d rt cv"
    by (simp add: solve_mod_secant_def)
  from for_range_values_start[OF values_mod_secant this] Mod_secant show ?thesis by simp
qed

text \<open>
  C9, as stated, fails: each solver builds its record with \<^verbatim>\<open>round(..., 8)\<close> on the
  estimate, the function value and the error. One fixed-point pass on \<open>g = x/3\<close> from
  \<open>x0 = 1\<close> computes the estimate \<open>1/3\<close> and stores \<open>0.33333333\<close>.
\<close>

theorem records_unrounded_counterexample:
  "safe_eval py_eval_sample ''x/3'' 1 = Some (1 / 3) \<and>
   dispatch py_eval_sample ''x/3'' (Fixed_point 1) (1 / 1000000) 1 =
     Data_dict
       [\<lparr>rec_iter = 1, rec_root = 33333333 / 100000000, rec_func = 33333333 / 100000000,
         rec_error = 66666667 / 100000000\<rparr>]
       None False \<and>
   (33333333 / 100000000 :: real) \<noteq> 1 / 3"
  by (simp add: solve_fixed_point_def fixed_point_body_def sample_eval mk_record_def round8_def
      round_half_even_def Let_def)

text \<open>
  C9, amended. In every run that returns records, the record of each pass holds the
  estimate, the function value and the error that the pass computed from its locals, each
  rounded to 8 decimal places by the solver itself, under the pass number. The iteration
  goes on with the unrounded values: the unrounded estimate of each pass is among the locals
  of the next pass, and on convergence the returned root is the unrounded estimate of the
  last pass.
\<close>

theorem records_hold_rounded_values:
  "dispatch pe func_str p tol max_iter = Data_dict d rt cv \<longrightarrow>
     rounded_records 1 (pass_values pe func_str p tol max_iter) = Some d \<and>
     estimates_carried pe func_str p tol max_iter \<and>
     (rt \<noteq> None \<longrightarrow> rt = last_estimate (pass_values pe func_str p tol max_iter))"
  using dispatch_values by blast

text \<open>
  Fixed-point iteration on \<open>g = x/3\<close> from \<open>x0 = 3\<close> with \<open>tol = 1/2\<close>: three passes, the
  estimates \<open>1\<close>, \<open>1/3\<close>, \<open>1/9\<close>, stored as \<open>1\<close>, \<open>0.33333333\<close>, \<open>0.11111111\<close>, and the root
  \<open>1/9\<close>.
\<close>

theorem records_hold_rounded_values_witness:
  "dispatch py_eval_sample ''x/3'' (Fixed_point 3) (1 / 2) 5 =
     Data_dict
       [\<lparr>rec_iter = 1, rec_root = 1, rec_func = 1, rec_error = 2\<rparr>,
        \<lparr>rec_iter = 2, rec_root = 33333333 / 100000000, rec_func = 33333333 / 100000000,
         rec_error = 66666667 / 100000000\<rparr>,
        \<lparr>rec_iter = 3, rec_root = 11111111 / 100000000, rec_func = 11111111 / 100000000,
         rec_error = 22222222 / 100000000\<rparr>]
       (Some (1 / 9)) True \<and>
   pass_values py_eval_sample ''x/3'' (Fixed_point 3) (1 / 2) 5 =
     [Some (1, 1, 2), Some (1 / 3, 1 / 3, 2 / 3), Some (1 / 9, 1 / 9, 2 / 9)] \<and>
   rounded_records 1 (pass_values py_eval_sample ''x/3'' (Fixed_point 3) (1 / 2) 5) =
     Some
       [\<lparr>rec_iter = 1, rec_root = 1, rec_func = 1, rec_error = 2\<rparr>,
        \<lparr>rec_iter = 2, rec_root = 33333333 / 100000000, rec_func = 33333333 / 100000000,
         rec_error = 66666667 / 100000000\<rparr>,
        \<lparr>rec_iter = 3, rec_root = 11111111 / 100000000, rec_func = 11111111 / 100000000,
         rec_error = 22222222 / 100000000\<rparr>] \<and>
   estimates_carried py_eval_sample ''x/3'' (Fixed_point 3) (1 / 2) 5 \<and>
   last_estimate (pass_values py_eval_sample ''x/3'' (Fixed_point 3) (1 / 2) 5) = Some (1 / 9)"
proof -
  have run: "dispatch py_eval_sample ''x/3'' (Fixed_point 3) (1 / 2) 5 =
     Data_dict
       [\<lparr>rec_iter = 1, rec_root = 1, rec_func = 1, rec_error = 2\<rparr>,
        \<lparr>rec_iter = 2, rec_root = 33333333 / 100000000, rec_func = 33333333 / 100000000,
         rec_error = 66666667 / 100000000\<rparr>,
        \<lparr>rec_iter = 3, rec_root = 11111111 / 100000000, rec_func = 11111111 / 100000000,
         rec_error = 22222222 / 100000000\<rparr>]
       (Some (1 / 9)) True"
    by (simp add: solve_fixed_point_def fixed_point_body_def sample_eval mk_record_def
        round8_def round_half_even_def Let_def eval_nat_numeral)
  have pv: "pass_values py_eval_sample ''x/3'' (Fixed_point 3) (1 / 2) 5 =
     [Some (1, 1, 2), Some (1 / 3, 1 / 3, 2 / 3), Some (1 / 9, 1 / 9, 2 / 9)]"
    by (simp add: fixed_point_body_def fixed_point_values_def sample_eval Let_def
        eval_nat_numeral)
  note t = records_hold_rounded_values[THEN mp, OF run]
  from t have le: "last_estimate (pass_values py_eval_sample ''x/3'' (Fixed_point 3) (1 / 2) 5)
     = Some (1 / 9)" by simp
  show ?thesis
    by (intro conjI)
      (rule run, rule pv, rule t[THEN conjunct1], rule t[THEN conjunct2, THEN conjunct1],
       rule le)
qed

section \<open>The two front ends\<close>














section \<open>The sign condition of the bracket\<close>

text \<open>
  A pass of bisection or regula falsi with \<open>tol > 0\<close> keeps the sign condition
  \<open>f(a) * f(b) < 0\<close> of the bracket, provided the product in the sign test does not
  underflow.
\<close>

lemma product_negative_less: "product_negative u v \<Longrightarrow> u * v < 0"
proof -
  assume "product_negative u v"
  then have "u * v < - (1 / 2 ^ 1075)" by (simp add: product_negative_def)
  moreover have "- (1 / 2 ^ 1075) < (0::real)" by simp
  ultimately show ?thesis by (rule less_trans)
qed

lemma same_sign_replaced:
  fixes fa fb fc :: real
  assumes "fa * fb < 0" and "\<not> fa * fc < 0" and "fc \<noteq> 0"
  shows "fc * fb < 0"
proof -
  from assms(1) have ab: "(fa < 0 \<and> 0 < fb) \<or> (0 < fa \<and> fb < 0)"
    by (auto simp: mult_less_0_iff)
  from assms(2) have ac: "0 \<le> fa * fc" by simp
  then have "(0 \<le> fa \<and> 0 \<le> fc) \<or> (fa \<le> 0 \<and> fc \<le> 0)"
    by (auto simp: zero_le_mult_iff)
  with ab assms(3) have "(fc < 0 \<and> 0 < fb) \<or> (0 < fc \<and> fb < 0)" by auto
  then show ?thesis by (auto simp: mult_less_0_iff)
qed

lemma bisection_pass_keeps_bracket:
  assumes "0 < tol" and "bisection_bracket_ok pe s (a, b, fa)"
    and "bisection_body pe s tol i (a, b, fa) data = (data', Continue st')"
    and nu: "\<And>fc. safe_eval pe s ((a + b) / 2) = Some fc \<Longrightarrow> fa * fc < 0 \<Longrightarrow>
               product_negative fa fc"
  shows "bisection_bracket_ok pe s st'"
proof -
  from assms(2) obtain fb where e: "safe_eval pe s a = Some fa" "safe_eval pe s b = Some fb"
    "fa * fb < 0"
    by (auto simp: bisection_bracket_ok_def split: option.splits)
  from assms(3) obtain fc where fc: "safe_eval pe s ((a + b) / 2) = Some fc"
    by (auto simp: bisection_body_def Let_def split: option.splits)
  from assms(3) fc have nc: "\<not> \<bar>fc\<bar> < tol"
    by (auto simp: bisection_body_def Let_def split: if_splits)
  with assms(1) have nz: "fc \<noteq> 0" by auto
  show ?thesis
  proof (cases "product_negative fa fc")
    case True
    with assms(3) fc nc have "st' = (a, (a + b) / 2, fa)"
      by (auto simp: bisection_body_def Let_def split: if_splits)
    with e fc product_negative_less[OF True] show ?thesis
      by (simp add: bisection_bracket_ok_def)
  next
    case False
    with nu[OF fc] have ns: "\<not> fa * fc < 0" by blast
    from False assms(3) fc nc have "st' = ((a + b) / 2, b, fc)"
      by (auto simp: bisection_body_def Let_def split: if_splits)
    with e fc same_sign_replaced[OF e(3) ns nz] show ?thesis
      by (simp add: bisection_bracket_ok_def)
  qed
qed

lemma regula_falsi_pass_keeps_bracket:
  assumes "0 < tol" and "regula_falsi_bracket_ok pe s (a, b, fa, fb, prev_c)"
    and "regula_falsi_body pe s tol i (a, b, fa, fb, prev_c) data = (data', Continue st')"
    and nu: "\<And>fc. safe_eval pe s ((a * fb - b * fa) / (fb - fa)) = Some fc \<Longrightarrow>
               fa * fc < 0 \<Longrightarrow> product_negative fa fc"
  shows "regula_falsi_bracket_ok pe s st'"
proof -
  from assms(2) have e: "safe_eval pe s a = Some fa" "safe_eval pe s b = Some fb"
    "fa * fb < 0"
    by (auto simp: regula_falsi_bracket_ok_def)
  define c where "c = (a * fb - b * fa) / (fb - fa)"
  from assms(3) obtain fc where fc: "safe_eval pe s c = Some fc"
    by (auto simp: regula_falsi_body_def Let_def c_def split: option.splits if_splits)
  from assms(3) fc have nc: "\<not> \<bar>fc\<bar> < tol"
    by (auto simp: regula_falsi_body_def Let_def c_def split: if_splits)
  with assms(1) have nz: "fc \<noteq> 0" by auto
  show ?thesis
  proof (cases "product_negative fa fc")
    case True
    with assms(3) fc nc have "st' = (a, c, fa, fc, c)"
      by (auto simp: regula_falsi_body_def Let_def c_def split: if_splits)
    with e fc product_negative_less[OF True] show ?thesis
      by (simp add: regula_falsi_bracket_ok_def)
  next
    case False
    with nu[OF fc[unfolded c_def]] have ns: "\<not> fa * fc < 0" by blast
    from False assms(3) fc nc have "st' = (c, b, fc, fb, c)"
      by (auto simp: regula_falsi_body_def Let_def c_def split: if_splits)
    with e fc same_sign_replaced[OF e(3) ns nz] show ?thesis
      by (simp add: regula_falsi_bracket_ok_def)
  qed
qed

text \<open>
  C8 fails on the code when the product in the sign test \<^verbatim>\<open>fa * fc < 0\<close> underflows.
  Bisection on \<open>f = x**3\<close> with \<^verbatim>\<open>a = -2**-200\<close>, \<^verbatim>\<open>b = 2**-158 + 2**-200\<close>, \<^verbatim>\<open>tol = 2**-1000\<close>
  and \<^verbatim>\<open>max_iter = 3\<close>: \<open>tol\<close> is positive, both endpoints evaluate and the signs are opposite
  at the start. In the first pass \<^verbatim>\<open>c = 2**-159\<close> and \<^verbatim>\<open>fc = 2**-477\<close> is positive, but the
  product with \<^verbatim>\<open>fa = -2**-600\<close> underflows to \<^verbatim>\<open>-0.0\<close>, so the \<^verbatim>\<open>else\<close> branch replaces \<open>a\<close>:
  the second and the third pass run on a bracket whose endpoints both have positive function
  values.
\<close>

theorem bisection_sign_test_underflow:
  "(0::real) < 1 / 2 ^ 1000 \<and>
   bisection_bracket_ok py_eval_sample ''x**3''
     (- (1 / 2 ^ 200), 1 / 2 ^ 158 + 1 / 2 ^ 200, - (1 / 2 ^ 600)) \<and>
   loop_states (bisection_body py_eval_sample ''x**3'' (1 / 2 ^ 1000)) (nat 3) 1
     (- (1 / 2 ^ 200), 1 / 2 ^ 158 + 1 / 2 ^ 200, - (1 / 2 ^ 600)) [] =
     [(- (1 / 2 ^ 200), 1 / 2 ^ 158 + 1 / 2 ^ 200, - (1 / 2 ^ 600)),
      (1 / 2 ^ 159, 1 / 2 ^ 158 + 1 / 2 ^ 200, 1 / 2 ^ 477),
      (3 / 2 ^ 160 + 1 / 2 ^ 201, 1 / 2 ^ 158 + 1 / 2 ^ 200, (3 / 2 ^ 160 + 1 / 2 ^ 201) ^ 3)] \<and>
   \<not> bisection_bracket_ok py_eval_sample ''x**3''
       (1 / 2 ^ 159, 1 / 2 ^ 158 + 1 / 2 ^ 200, 1 / 2 ^ 477) \<and>
   dispatch py_eval_sample ''x**3'' (Bisection (- (1 / 2 ^ 200)) (1 / 2 ^ 158 + 1 / 2 ^ 200))
     (1 / 2 ^ 1000) 3 =
     Data_dict
       [\<lparr>rec_iter = 1, rec_root = 0, rec_func = 0, rec_error = 0\<rparr>,
        \<lparr>rec_iter = 2, rec_root = 0, rec_func = 0, rec_error = 0\<rparr>,
        \<lparr>rec_iter = 3, rec_root = 0, rec_func = 0, rec_error = 0\<rparr>]
       None False"
  by (simp add: solve_bisection_def bisection_body_def bisection_bracket_ok_def sample_eval
      mk_record_def round8_def round_half_even_def Let_def eval_nat_numeral)

end
